theory Spec2Isabelle
  imports Main "HOL-Library.Sublist" "HOL-Library.AList"
begin

section \<open>JavaScript values used by the web client\<close>

text \<open>
  A JavaScript string is modelled as a \<open>string\<close>; each \<open>char\<close> stands for one code unit,
  so \<open>length\<close> is the \<open>.length\<close> of the source. A settled promise is a sum: \<open>Inl\<close> the
  error it rejected with, \<open>Inr\<close> the value it resolved to.
\<close>

datatype js_error = Error string | TypeError string | SyntaxError string

type_synonym 'a promise = "js_error + 'a"

text \<open>\<open>err instanceof Error ? err.message : fallback\<close>: every error of the model is an Error.\<close>

fun error_message :: "js_error \<Rightarrow> string" where
  "error_message (Error m) = m"
| "error_message (TypeError m) = m"
| "error_message (SyntaxError m) = m"

text \<open>Template literals print numbers (a status code, \<open>Date.now()\<close>) in decimal.\<close>

definition digit_char :: "nat \<Rightarrow> char" where
  \<comment> \<open>only ever applied below ten\<close>
  "digit_char n = ''0123456789'' ! n"

fun decimal :: "nat \<Rightarrow> string" where
  "decimal n = (if n < 10 then [digit_char n] else decimal (n div 10) @ [digit_char (n mod 10)])"

declare decimal.simps [simp del]

text \<open>
  \<open>String.prototype.trim\<close> strips white space and line terminators from both ends; of
  those, the code units below 256 are U+0009 to U+000D, U+0020 and U+00A0.
\<close>

definition is_space :: "char \<Rightarrow> bool" where
  "is_space c = (c \<in> set [CHR 0x09, CHR 0x0A, CHR 0x0B, CHR 0x0C, CHR 0x0D, CHR 0x20, CHR 0xA0])"

definition trim :: "string \<Rightarrow> string" where
  "trim s = rev (dropWhile is_space (rev (dropWhile is_space s)))"

text \<open>
  Lower-casing of the ASCII letters. Header names compare without regard to ASCII case;
  the workspace page lower-cases a message only to look for the ASCII words \<open>plan\<close> and
  \<open>execution\<close> in it, which the other code units below 256 do not affect.
\<close>

definition lower_char :: "char \<Rightarrow> char" where
  "lower_char c =
     (case map_of (zip ''ABCDEFGHIJKLMNOPQRSTUVWXYZ'' ''abcdefghijklmnopqrstuvwxyz'') c of
        Some d \<Rightarrow> d
      | None \<Rightarrow> c)"

definition toLowerCase :: "string \<Rightarrow> string" where
  "toLowerCase s = map lower_char s"

text \<open>
  JSON values as \<open>response.json()\<close> yields them. A property that is absent reads as
  \<open>undefined\<close>, modelled by \<open>None\<close>. Numbers are kept to the integers.
\<close>

datatype json =
    JNull
  | JBool bool
  | JNum int
  | JStr string
  | JArr "json list"
  | JObj "(string \<times> json) list"


text \<open>\<open>v.name\<close>: reading a property of \<open>null\<close> throws a TypeError; a later duplicate key wins.\<close>

definition null_property_message :: "string \<Rightarrow> string" where
  \<comment> \<open>the wording of V8; the text is the engine's, the TypeError is the language's\<close>
  "null_property_message name =
     ''Cannot read properties of null (reading '' @ [CHR 0x27] @ name @ [CHR 0x27] @ '')''"

fun get_property :: "json \<Rightarrow> string \<Rightarrow> js_error + json option" where
  "get_property JNull name = Inl (TypeError (null_property_message name))"
| "get_property (JObj fields) name = Inr (map_of (rev fields) name)"
| "get_property _ name = Inr None"

text \<open>Truthiness, as \<open>||\<close> and \<open>if\<close> test it.\<close>

fun truthy :: "json option \<Rightarrow> bool" where
  "truthy None = False"
| "truthy (Some JNull) = False"
| "truthy (Some (JBool b)) = b"
| "truthy (Some (JNum n)) = (n \<noteq> 0)"
| "truthy (Some (JStr s)) = (s \<noteq> [])"
| "truthy (Some (JArr xs)) = True"
| "truthy (Some (JObj fields)) = True"

text \<open>\<open>v || ''\<close>: the string itself when it is truthy.\<close>

definition or_empty :: "string option \<Rightarrow> string" where
  "or_empty v = (case v of None \<Rightarrow> [] | Some x \<Rightarrow> x)"

section \<open>The shared request helper\<close>

text \<open>
  \<open>localStorage\<close> maps keys to strings; \<open>getItem\<close> gives \<open>null\<close> (\<open>None\<close>) for a missing
  key. \<open>if (token)\<close> holds for a stored string that is not empty.
\<close>

type_synonym storage = "string \<rightharpoonup> string"

definition getItem :: "storage \<Rightarrow> string \<Rightarrow> string option" where
  "getItem ls k = ls k"

definition setItem :: "storage \<Rightarrow> string \<Rightarrow> string \<Rightarrow> storage" where
  "setItem ls k v = ls(k \<mapsto> v)"

definition removeItem :: "storage \<Rightarrow> string \<Rightarrow> storage" where
  "removeItem ls k = ls(k := None)"

fun truthy_string :: "string option \<Rightarrow> bool" where
  "truthy_string None = False"
| "truthy_string (Some s) = (s \<noteq> [])"

text \<open>
  \<open>RequestInit\<close> as the helper receives it. The helper is private to the services
  module, and each of its callers passes a method and a body at most, so
  \<open>options.headers\<close> is \<open>undefined\<close> in every call: \<open>new Headers(undefined)\<close> is empty and
  the spread \<open>...options.headers\<close> adds nothing. The body is the value handed to
  \<open>JSON.stringify\<close>, whose text is never empty, so a body that is present is truthy.
\<close>

record options =
  opt_method :: "string option"
  opt_body :: "json option"

record http_request =
  req_url :: string
  req_method :: "string option"
  req_body :: "json option"
  req_headers :: "string \<rightharpoonup> string"

record response =
  ok :: bool
  status :: nat
  json_result :: "json promise"

text \<open>\<open>import.meta.env.VITE_API_BASE_URL || '/api'\<close>; the variable is the build's.\<close>

definition API_BASE_URL :: "string option \<Rightarrow> string" where
  "API_BASE_URL env = (case env of None \<Rightarrow> ''/api'' | Some u \<Rightarrow> if u = [] then ''/api'' else u)"

text \<open>
  The \<open>Headers\<close> of the Fetch standard. A value is normalised on its way in: leading and
  trailing HTTP white space (tab, line feed, carriage return, space) is removed. A name
  must be a token; a value must not begin or end with a tab or a space and must hold no
  NUL, line feed or carriage return. \<open>set\<close> and \<open>append\<close> throw a TypeError otherwise.
  (A value with a code unit above 255 is refused too; the model has none.)
\<close>

definition is_http_whitespace :: "char \<Rightarrow> bool" where
  "is_http_whitespace c = (c \<in> set [CHR 0x09, CHR 0x0A, CHR 0x0D, CHR 0x20])"

definition normalize_value :: "string \<Rightarrow> string" where
  "normalize_value v = rev (dropWhile is_http_whitespace (rev (dropWhile is_http_whitespace v)))"

definition is_tchar :: "char \<Rightarrow> bool" where
  "is_tchar c =
     (c \<in> set (''!#$%&*+-.^_`|~0123456789ABCDEFGHIJKLMNOPQRSTUVWXYZabcdefghijklmnopqrstuvwxyz''
                @ [CHR 0x27]))"

definition is_header_name :: "string \<Rightarrow> bool" where
  "is_header_name name = (name \<noteq> [] \<and> list_all is_tchar name)"

definition is_tab_or_space :: "char \<Rightarrow> bool" where
  "is_tab_or_space c = (c \<in> set [CHR 0x09, CHR 0x20])"

definition is_header_value :: "string \<Rightarrow> bool" where
  "is_header_value v =
     ((case v of [] \<Rightarrow> True | c # cs \<Rightarrow> \<not> is_tab_or_space c \<and> \<not> is_tab_or_space (last v))
      \<and> list_all (\<lambda>c. c \<notin> set [CHR 0x00, CHR 0x0A, CHR 0x0D]) v)"

definition invalid_header_message :: "string \<Rightarrow> string" where
  \<comment> \<open>the text is the engine's (Chromium puts the failing call before these words);
      \<open>what\<close> is \<open>name\<close> or \<open>value\<close>\<close>
  "invalid_header_message what = ''Invalid '' @ what"

definition headers_has :: "(string \<rightharpoonup> string) \<Rightarrow> string \<Rightarrow> bool" where
  "headers_has h name = (h (toLowerCase name) \<noteq> None)"

definition headers_set :: "(string \<rightharpoonup> string) \<Rightarrow> string \<Rightarrow> string \<Rightarrow> js_error + (string \<rightharpoonup> string)" where
  "headers_set h name v =
     (let v = normalize_value v
      in if \<not> is_header_name name then Inl (TypeError (invalid_header_message ''name''))
         else if \<not> is_header_value v then Inl (TypeError (invalid_header_message ''value''))
         else Inr (h(toLowerCase name \<mapsto> v)))"

text \<open>\<open>append\<close> joins the value to the one the name already has.\<close>

definition headers_append :: "(string \<rightharpoonup> string) \<Rightarrow> string \<Rightarrow> string \<Rightarrow> js_error + (string \<rightharpoonup> string)" where
  "headers_append h name v =
     (let v = normalize_value v
      in if \<not> is_header_name name then Inl (TypeError (invalid_header_message ''name''))
         else if \<not> is_header_value v then Inl (TypeError (invalid_header_message ''value''))
         else Inr (case h (toLowerCase name) of
                     None \<Rightarrow> h(toLowerCase name \<mapsto> v)
                   | Some old \<Rightarrow> h(toLowerCase name \<mapsto> old @ '', '' @ v)))"

text \<open>
  \<open>fetch\<close> reads a plain headers object by appending its entries in order, and rejects
  with the TypeError of the first entry that is refused; nothing is sent then. The guard
  of a request's headers also drops the forbidden names (Cookie, Host and the like);
  \<open>Content-Type\<close> and \<open>Authorization\<close>, the only names the helper writes, are not among
  them.
\<close>

fun fill_headers :: "(string \<rightharpoonup> string) \<Rightarrow> (string \<times> string) list \<Rightarrow> js_error + (string \<rightharpoonup> string)" where
  "fill_headers h [] = Inr h"
| "fill_headers h (kv # kvs) =
     (case headers_append h (fst kv) (snd kv) of
        Inl e \<Rightarrow> Inl e
      | Inr h' \<Rightarrow> fill_headers h' kvs)"

text \<open>
  The request the helper of the services module hands to \<open>fetch\<close> (it builds a \<open>Headers\<close>
  object), or the TypeError that \<open>headers.set\<close> throws before \<open>fetch\<close> is reached.
\<close>

definition outgoing :: "string option \<Rightarrow> storage \<Rightarrow> string \<Rightarrow> options \<Rightarrow> js_error + http_request" where
  "outgoing env ls endpoint options =
     (let token = getItem ls ''token'';
          headers = Map.empty
      in case (if \<not> headers_has headers ''Content-Type'' \<and> opt_body options \<noteq> None
               then headers_set headers ''Content-Type'' ''application/json''
               else Inr headers) of
           Inl e \<Rightarrow> Inl e
         | Inr headers \<Rightarrow>
             (case (if truthy_string token
                    then headers_set headers ''Authorization'' (''Bearer '' @ or_empty token)
                    else Inr headers) of
                Inl e \<Rightarrow> Inl e
              | Inr headers \<Rightarrow>
                  Inr \<lparr>req_url = API_BASE_URL env @ endpoint,
                       req_method = opt_method options,
                       req_body = opt_body options,
                       req_headers = headers\<rparr>))"

text \<open>
  The earlier helper builds a plain object, \<open>{ 'Content-Type': 'application/json',
  ...options.headers }\<close>, and assigns \<open>headers['Authorization']\<close> when there is a token.
  \<open>fetch\<close> reads the object into the request's headers, or rejects.
\<close>

definition outgoing_plain :: "string option \<Rightarrow> storage \<Rightarrow> string \<Rightarrow> options \<Rightarrow> js_error + http_request" where
  "outgoing_plain env ls endpoint options =
     (let token = getItem ls ''token'';
          headers = [(''Content-Type'', ''application/json'')];
          headers = (if truthy_string token
                     then AList.update ''Authorization'' (''Bearer '' @ or_empty token) headers
                     else headers)
      in case fill_headers Map.empty headers of
           Inl e \<Rightarrow> Inl e
         | Inr h \<Rightarrow>
             Inr \<lparr>req_url = API_BASE_URL env @ endpoint,
                  req_method = opt_method options,
                  req_body = opt_body options,
                  req_headers = h\<rparr>)"

text \<open>
  What the helper does with the settled \<open>fetch\<close>: both versions share these lines.
  \<open>response.json().catch(() => ({ error: 'Request failed' }))\<close> replaces a body that
  does not parse; \<open>error.error || `HTTP error! status: ${response.status}`\<close> picks the
  argument of \<open>new Error\<close>, which turns it into a string. A string is its own text. For
  any other truthy value the conversion is the engine's (number formatting, an object's
  \<open>toString\<close>, which can throw): \<open>conv\<close> stands for it.
\<close>

definition or_else :: "(json \<Rightarrow> js_error + string) \<Rightarrow> json option \<Rightarrow> string \<Rightarrow> js_error + string" where
  \<comment> \<open>\<open>String(v || fallback)\<close>\<close>
  "or_else conv v fallback =
     (case v of
        None \<Rightarrow> Inr fallback
      | Some x \<Rightarrow>
          if truthy (Some x) then (case x of JStr s \<Rightarrow> Inr s | _ \<Rightarrow> conv x)
          else Inr fallback)"

definition settle :: "(json \<Rightarrow> js_error + string) \<Rightarrow> response promise \<Rightarrow> json promise" where
  "settle conv fetched =
     (case fetched of
        Inl e \<Rightarrow> Inl e
      | Inr response \<Rightarrow>
          if \<not> ok response then
            (let error = (case json_result response of
                            Inl _ \<Rightarrow> JObj [(''error'', JStr ''Request failed'')]
                          | Inr j \<Rightarrow> j)
             in case get_property error ''error'' of
                  Inl e \<Rightarrow> Inl e
                | Inr v \<Rightarrow>
                    (case or_else conv v (''HTTP error! status: '' @ decimal (status response)) of
                       Inl e \<Rightarrow> Inl e
                     | Inr message \<Rightarrow> Inl (Error message)))
          else json_result response)"

definition request :: "string option \<Rightarrow> storage \<Rightarrow> (json \<Rightarrow> js_error + string) \<Rightarrow> (http_request \<Rightarrow> response promise) \<Rightarrow> string \<Rightarrow> options \<Rightarrow> json promise" where
  "request env ls conv fetch endpoint options =
     (case outgoing env ls endpoint options of
        Inl e \<Rightarrow> Inl e
      | Inr r \<Rightarrow> settle conv (fetch r))"

definition request_plain :: "string option \<Rightarrow> storage \<Rightarrow> (json \<Rightarrow> js_error + string) \<Rightarrow> (http_request \<Rightarrow> response promise) \<Rightarrow> string \<Rightarrow> options \<Rightarrow> json promise" where
  "request_plain env ls conv fetch endpoint options =
     (case outgoing_plain env ls endpoint options of
        Inl e \<Rightarrow> Inl e
      | Inr r \<Rightarrow> settle conv (fetch r))"

text \<open>What the newer helper has written when it comes to the token.\<close>

definition base_headers :: "options \<Rightarrow> (string \<rightharpoonup> string)" where
  "base_headers options =
     (if opt_body options \<noteq> None then [''content-type'' \<mapsto> ''application/json''] else Map.empty)"

section \<open>The API client\<close>

text \<open>
  The interfaces of the services module. Record fields carry a short prefix, since
  several interfaces share the names \<open>id\<close>, \<open>title\<close>, \<open>message\<close> and \<open>response\<close>.
  A property typed \<open>string | null\<close> and optional has three states.
\<close>

datatype 'a nullable = Undefined | Null | Value 'a

fun truthy_nullable :: "string nullable \<Rightarrow> bool" where
  "truthy_nullable Undefined = False"
| "truthy_nullable Null = False"
| "truthy_nullable (Value s) = (s \<noteq> [])"

record ProposedProject =
  p_title :: string
  p_description :: string
  p_due_date :: "string nullable"

record ChatResponse =
  r_response :: string
  r_proposed_projects :: "ProposedProject list option"
  r_requires_confirmation :: "bool option"

record TodoItem =
  todo_id :: string
  todo_text :: string
  todo_completed :: bool
  todo_order_index :: "string option"
  todo_created_at :: string

text \<open>
  A project as the workspace page reads it: the interface of the services module that is
  among the sources, with the optional \<open>plan\<close> text the page reads and writes.
\<close>

record Project =
  project_id :: string
  project_title :: string
  project_description :: "string option"
  project_due_date :: "string option"
  project_plan :: "string option"
  project_created_at :: string
  project_updated_at :: string
  project_todos :: "TodoItem list"

record ProjectChatMessage =
  cm_id :: string
  cm_message :: string
  cm_response :: string
  cm_timestamp :: string

record User =
  user_id :: string
  user_email :: string
  user_name :: "string option"

record TimePreference =
  weekdays :: "string option"
  weekends :: "string option"
  all_time :: bool

record UserPreferences =
  work_study :: TimePreference
  gym_activity :: TimePreference
  personal_goals :: TimePreference

text \<open>The argument of \<open>projectsApi.create\<close> and of \<open>projectsApi.update\<close>.\<close>

record project_data =
  data_title :: "string option"
  data_description :: "string option"
  data_due_date :: "string option"

record todo_data =
  data_text :: "string option"
  data_completed :: "bool option"

text \<open>
  One constructor per function of the client; a value of the type is one invocation
  with its arguments. The endpoint text plays no part below and is left to the caller
  of the helper.
\<close>

datatype api_call =
    Signup string string "string option"
  | Login string string
  | VerifyToken
  | SendMessage string "ProposedProject list option"
  | GetHistory
  | ProjectsGetAll
  | ProjectsCreate project_data
  | ProjectsGet string
  | ProjectsUpdate string project_data
  | ProjectsDelete string
  | AddTodo string string
  | UpdateTodo string string todo_data
  | DeleteTodo string string
  | SendChatMessage string string
  | GetChatHistory string
  | UpdatePassword string string
  | GetGoogleCalendarStatus
  | GetGoogleCalendarAuthUrl "string option"
  | CompleteGoogleCalendarOAuth string string string
  | DisconnectGoogleCalendar
  | GetPreferences
  | UpdatePreferences UserPreferences









fun is_create :: "api_call \<Rightarrow> bool" where
  "is_create (ProjectsCreate d) = True"
| "is_create _ = False"

section \<open>The goal-conversation chat page\<close>

record EditableProject = ProposedProject +
  p_id :: string
  p_selected :: bool
  p_conversationId :: string

record Message =
  m_id :: string
  m_message :: string
  m_response :: string
  m_timestamp :: string
  m_proposedProjects :: "EditableProject list option"
  m_requiresConfirmation :: "bool option"

record Conversation =
  c_id :: string
  c_title :: string
  c_messages :: "Message list"
  c_createdAt :: string

text \<open>The component's \<open>useState\<close> cells.\<close>

record chat_state =
  conversations :: "Conversation list"
  currentConversationId :: "string option"
  input :: string
  loading :: bool
  creatingProjects :: "string option"

text \<open>
  \<open>prev.map(conv => conv.id === conversationId ? { ...conv, messages: f(conv.messages) } : conv)\<close>,
  the shape of every update of the conversations.
\<close>

definition in_conversation :: "string \<Rightarrow> (Message list \<Rightarrow> Message list) \<Rightarrow> Conversation list \<Rightarrow> Conversation list" where
  "in_conversation conversationId f prev =
     map (\<lambda>conv. if c_id conv = conversationId then conv\<lparr>c_messages := f (c_messages conv)\<rparr> else conv) prev"

text \<open>
  \<open>messages.map(msg => ({ ...msg, proposedProjects: msg.proposedProjects?.g() }))\<close>
\<close>

definition on_proposals :: "(EditableProject list \<Rightarrow> EditableProject list) \<Rightarrow> Message list \<Rightarrow> Message list" where
  "on_proposals g messages =
     map (\<lambda>msg. msg\<lparr>m_proposedProjects := map_option g (m_proposedProjects msg)\<rparr>) messages"

definition currentConversation :: "chat_state \<Rightarrow> Conversation option" where
  "currentConversation s =
     (case currentConversationId s of
        None \<Rightarrow> None
      | Some cid \<Rightarrow> find (\<lambda>c. c_id c = cid) (conversations s))"

definition allProjects :: "chat_state \<Rightarrow> EditableProject list" where
  "allProjects s =
     (case currentConversation s of
        None \<Rightarrow> []
      | Some conv \<Rightarrow>
          concat (map (\<lambda>msg.
            map (\<lambda>p. p\<lparr>p_conversationId :=
                         or_empty (currentConversationId s)\<rparr>)
              (case m_proposedProjects msg of None \<Rightarrow> [] | Some ps \<Rightarrow> ps))
            (c_messages conv)))"

definition handleProjectFieldChange :: "string \<Rightarrow> (EditableProject \<Rightarrow> EditableProject) \<Rightarrow> chat_state \<Rightarrow> chat_state" where
  \<comment> \<open>\<open>assign\<close> stands for \<open>{ ...proj, [field]: value }\<close>\<close>
  "handleProjectFieldChange projectId assign s =
     (if \<not> truthy_string (currentConversationId s) then s
      else s\<lparr>conversations :=
        in_conversation (or_empty (currentConversationId s))
          (on_proposals (map (\<lambda>proj. if p_id proj = projectId then assign proj else proj)))
          (conversations s)\<rparr>)"

definition handleToggleProjectSelection :: "string \<Rightarrow> chat_state \<Rightarrow> chat_state" where
  "handleToggleProjectSelection projectId s =
     (if \<not> truthy_string (currentConversationId s) then s
      else s\<lparr>conversations :=
        in_conversation (or_empty (currentConversationId s))
          (on_proposals (map (\<lambda>proj.
             if p_id proj = projectId then proj\<lparr>p_selected := \<not> p_selected proj\<rparr> else proj)))
          (conversations s)\<rparr>)"

text \<open>
  \<open>handleMoveSelectedProjects\<close>. The loop awaits one \<open>projectsApi.create\<close> per selected
  proposal; \<open>outcome i\<close> is how the \<open>i\<close>-th of them settles. A rejection is logged and
  the loop goes on. The result is the calls made and \<open>createdProjects\<close>. The alert's
  text is kept without its leading check-mark sign.
\<close>

definition create_call :: "EditableProject \<Rightarrow> api_call" where
  "create_call project =
     ProjectsCreate \<lparr>data_title = Some (p_title project),
       data_description = (if p_description project = [] then None else Some (p_description project)),
       data_due_date = (case p_due_date project of
                          Value d \<Rightarrow> if d = [] then None else Some d
                        | _ \<Rightarrow> None)\<rparr>"

fun create_loop :: "(nat \<Rightarrow> Project promise) \<Rightarrow> nat \<Rightarrow> EditableProject list \<Rightarrow> api_call list \<times> Project list" where
  "create_loop outcome i [] = ([], [])"
| "create_loop outcome i (project # rest) =
     (let (calls, createdProjects) = create_loop outcome (Suc i) rest
      in (create_call project # calls,
          (case outcome i of
             Inr created \<Rightarrow> created # createdProjects
           | Inl error \<Rightarrow> createdProjects)))"

record move_result =
  move_calls :: "api_call list"
  move_alert :: "string option"
  move_state :: chat_state

definition handleMoveSelectedProjects :: "(nat \<Rightarrow> Project promise) \<Rightarrow> chat_state \<Rightarrow> move_result" where
  "handleMoveSelectedProjects outcome s =
     (let selectedProjects = filter p_selected (allProjects s)
      in if length selectedProjects = 0
         then \<lparr>move_calls = [], move_alert = Some ''Please select at least one project to move'',
               move_state = s\<rparr>
         else
           (let (calls, createdProjects) = create_loop outcome 0 selectedProjects;
                s = (if truthy_string (currentConversationId s)
                     then s\<lparr>conversations :=
                       in_conversation (or_empty (currentConversationId s))
                         (on_proposals (filter (\<lambda>p. \<not> p_selected p)))
                         (conversations s)\<rparr>
                     else s)
            in \<lparr>move_calls = calls,
                move_alert = Some (''Successfully created '' @ decimal (length createdProjects)
                                   @ '' project(s)!''),
                move_state = s\<lparr>creatingProjects := None\<rparr>\<rparr>))"

text \<open>
  \<open>handleSubmit\<close> up to its \<open>await\<close>. \<open>now\<close> and \<open>iso\<close> are the clock readings of
  \<open>Date.now()\<close> and \<open>new Date().toISOString()\<close>, in the order the handler takes them.
  \<open>None\<close> is the early return. What the continuation keeps of the call is \<open>pending\<close>.
\<close>

record pending =
  pend_conversationId :: string
  pend_tempId :: string
  pend_userMessage :: string

definition handleSubmit_begin :: "nat \<Rightarrow> string \<Rightarrow> nat \<Rightarrow> string \<Rightarrow> chat_state \<Rightarrow> (pending \<times> api_call \<times> chat_state) option" where
  "handleSubmit_begin now1 iso1 now2 iso2 s =
     (if trim (input s) = [] \<or> loading s then None
      else
        (let userMessage = trim (input s);
             s = s\<lparr>input := [], loading := True\<rparr>;
             (conversationId, s) =
               (if \<not> truthy_string (currentConversationId s)
                then (let conversationId = ''conv-'' @ decimal now1;
                          newConversation = \<lparr>c_id = conversationId, c_title = take 50 userMessage,
                                             c_messages = [], c_createdAt = iso1\<rparr>
                      in (conversationId,
                          s\<lparr>conversations := conversations s @ [newConversation],
                            currentConversationId := Some conversationId\<rparr>))
                else (or_empty (currentConversationId s), s));
             tempId = ''msg-'' @ decimal now2;
             userMsg = \<lparr>m_id = tempId, m_message = userMessage, m_response = [],
                        m_timestamp = iso2, m_proposedProjects = None,
                        m_requiresConfirmation = None\<rparr>;
             s = s\<lparr>conversations :=
                   in_conversation conversationId (\<lambda>messages. messages @ [userMsg]) (conversations s)\<rparr>
         in Some (\<lparr>pend_conversationId = conversationId, pend_tempId = tempId,
                    pend_userMessage = userMessage\<rparr>,
                  SendMessage userMessage None, s)))"

text \<open>
  The continuation, run on the state as it is when \<open>chatApi.sendMessage\<close> settles:
  the \<open>try\<close> body on a response, the \<open>catch\<close> body on a rejection, then \<open>finally\<close>.
\<close>

definition editable :: "string \<Rightarrow> string \<Rightarrow> nat \<times> ProposedProject \<Rightarrow> EditableProject" where
  "editable stamp conversationId ip =
     \<lparr>p_title = p_title (snd ip), p_description = p_description (snd ip),
      p_due_date = p_due_date (snd ip),
      p_id = ''proj-'' @ stamp @ ''-'' @ decimal (fst ip), p_selected = False,
      p_conversationId = conversationId\<rparr>"

definition handleSubmit_settled :: "pending \<Rightarrow> ChatResponse promise \<Rightarrow> nat \<Rightarrow> chat_state \<Rightarrow> chat_state" where
  "handleSubmit_settled pend settled now3 s =
     (let s =
        (case settled of
           Inr chatResponse \<Rightarrow>
             (let finalId = ''msg-'' @ decimal now3;
                  editableProjects =
                    map (editable finalId (pend_conversationId pend))
                      (enumerate 0 (case r_proposed_projects chatResponse of None \<Rightarrow> [] | Some ps \<Rightarrow> ps))
              in s\<lparr>conversations :=
                   in_conversation (pend_conversationId pend)
                     (map (\<lambda>msg. if m_id msg = pend_tempId pend
                        then msg\<lparr>m_id := finalId,
                                 m_response := r_response chatResponse,
                                 m_proposedProjects :=
                                   (if length editableProjects > 0 then Some editableProjects else None),
                                 m_requiresConfirmation := r_requires_confirmation chatResponse\<rparr>
                        else msg))
                     (conversations s)\<rparr>)
         | Inl error \<Rightarrow>
             s\<lparr>conversations :=
               in_conversation (pend_conversationId pend)
                 (map (\<lambda>msg. if m_id msg = pend_tempId pend
                    then msg\<lparr>m_response := ''Sorry, I encountered an error. Please try again.''\<rparr>
                    else msg))
                 (conversations s)\<rparr>)
      in s\<lparr>loading := False\<rparr>)"

text \<open>\<open>handleEditProjects\<close>: the guard, then one chat call carrying the current proposals.\<close>

definition handleEditProjects_begin :: "string \<Rightarrow> chat_state \<Rightarrow> (api_call \<times> chat_state) option" where
  "handleEditProjects_begin editPrompt s =
     (if trim editPrompt = [] \<or> \<not> truthy_string (currentConversationId s) then None
      else Some (SendMessage editPrompt
                   (Some (map (\<lambda>p. \<lparr>p_title = p_title p, p_description = p_description p,
                                      p_due_date = p_due_date p\<rparr>) (allProjects s))),
                 s\<lparr>loading := True\<rparr>))"

definition startNewConversation :: "chat_state \<Rightarrow> chat_state" where
  "startNewConversation s = s\<lparr>currentConversationId := None, input := []\<rparr>"

definition handleQuickAction :: "string \<Rightarrow> chat_state \<Rightarrow> chat_state" where
  \<comment> \<open>the submit event it dispatches 100 ms later runs \<open>handleSubmit\<close>\<close>
  "handleQuickAction prompt s = s\<lparr>input := prompt\<rparr>"

text \<open>
  The handlers of the page and the API calls each makes when run in state \<open>s\<close>.
\<close>

datatype handler =
    QuickAction string
  | ProjectFieldChange string "EditableProject \<Rightarrow> EditableProject"
  | ToggleProjectSelection string
  | MoveSelectedProjects "nat \<Rightarrow> Project promise"
  | EditProjects string
  | Submit nat string nat string
  | StartNewConversation

fun calls_of :: "handler \<Rightarrow> chat_state \<Rightarrow> api_call list" where
  "calls_of (QuickAction prompt) s = []"
| "calls_of (ProjectFieldChange projectId assign) s = []"
| "calls_of (ToggleProjectSelection projectId) s = []"
| "calls_of (MoveSelectedProjects outcome) s = move_calls (handleMoveSelectedProjects outcome s)"
| "calls_of (EditProjects editPrompt) s =
     (case handleEditProjects_begin editPrompt s of None \<Rightarrow> [] | Some (call, s') \<Rightarrow> [call])"
| "calls_of (Submit now1 iso1 now2 iso2) s =
     (case handleSubmit_begin now1 iso1 now2 iso2 s of None \<Rightarrow> [] | Some (pend, call, s') \<Rightarrow> [call])"
| "calls_of StartNewConversation s = []"

section \<open>The plain chat page\<close>

record plain_chat_state =
  messages :: "ProjectChatMessage list"
  chat_input :: string
  chat_loading :: bool

text \<open>
  Its \<open>handleSubmit\<close> up to the \<open>await\<close>: the early return is \<open>None\<close>, otherwise the
  temporary id, the call and the state with the provisional message.
\<close>

definition Chat_handleSubmit_begin :: "nat \<Rightarrow> string \<Rightarrow> plain_chat_state \<Rightarrow> (string \<times> api_call \<times> plain_chat_state) option" where
  "Chat_handleSubmit_begin now1 iso1 s =
     (if trim (chat_input s) = [] \<or> chat_loading s then None
      else
        (let userMessage = trim (chat_input s);
             s = s\<lparr>chat_input := [], chat_loading := True\<rparr>;
             tempId = decimal now1;
             s = s\<lparr>messages := messages s @
                   [\<lparr>cm_id = tempId, cm_message = userMessage, cm_response = [],
                     cm_timestamp = iso1\<rparr>]\<rparr>
         in Some (tempId, SendMessage userMessage None, s)))"

text \<open>The continuation; \<open>settled\<close> is the \<open>response\<close> field of the reply, or the rejection.\<close>

definition Chat_handleSubmit_settled :: "string \<Rightarrow> string promise \<Rightarrow> nat \<Rightarrow> plain_chat_state \<Rightarrow> plain_chat_state" where
  "Chat_handleSubmit_settled tempId settled now2 s =
     (let s =
        (case settled of
           Inr response \<Rightarrow>
             s\<lparr>messages := map (\<lambda>msg. if cm_id msg = tempId
                                then msg\<lparr>cm_response := response, cm_id := ''msg-'' @ decimal now2\<rparr>
                                else msg) (messages s)\<rparr>
         | Inl error \<Rightarrow>
             s\<lparr>messages := map (\<lambda>msg. if cm_id msg = tempId
                                then msg\<lparr>cm_response := ''Sorry, I encountered an error. Please try again.''\<rparr>
                                else msg) (messages s)\<rparr>)
      in s\<lparr>chat_loading := False\<rparr>)"

section \<open>The project workspace\<close>

text \<open>The cells of the page that plan generation and the project chat touch.\<close>

record home_state =
  projects :: "Project list"
  selectedProject :: "Project option"
  chatMessages :: "ProjectChatMessage list"
  chatInput :: string
  chatLoading :: bool
  planGenerating :: bool

text \<open>
  Modelled from the spec: the reply of \<open>generatePlan\<close>, whose declaration in the services
  module is not among the sources. It is the plan text and a flag saying that the AI
  asks a clarifying question rather than delivering a final plan; the page reads them
  as \<open>result.plan\<close> and \<open>result.needs_clarification\<close>.
\<close>

record plan_reply =
  plan :: string
  needs_clarification :: bool

text \<open>
  Modelled from the spec: the reply of the project chat, declared in the same missing
  module. The page reads its \<open>response\<close> and \<open>plan_updated\<close>.
\<close>

record chat_reply =
  reply_response :: string
  plan_updated :: bool

text \<open>
  \<open>loadProjectDetails\<close> after \<open>projectsApi.get\<close> settles. It catches its own errors.
\<close>

definition loadProjectDetails_settled :: "Project promise \<Rightarrow> home_state \<Rightarrow> home_state" where
  "loadProjectDetails_settled settled s =
     (case settled of
        Inr data \<Rightarrow>
          s\<lparr>selectedProject := Some data,
            projects := map (\<lambda>p. if project_id p = project_id data then data else p) (projects s)\<rparr>
      | Inl error \<Rightarrow> s)"

text \<open>
  \<open>handleGeneratePlan\<close>: up to the \<open>await\<close> it returns the project it closed over and
  the temporary message id.
\<close>

definition handleGeneratePlan_begin :: "nat \<Rightarrow> string \<Rightarrow> home_state \<Rightarrow> (Project \<times> string \<times> home_state) option" where
  "handleGeneratePlan_begin now1 iso1 s =
     (case selectedProject s of
        None \<Rightarrow> None
      | Some selected \<Rightarrow>
          if chatLoading s then None
          else
            (let s = s\<lparr>planGenerating := True, chatLoading := True\<rparr>;
                 planRequestMessage = ''Please generate a detailed execution plan for this project.'';
                 tempMessage = \<lparr>cm_id = ''temp-'' @ decimal now1, cm_message = planRequestMessage,
                                 cm_response = [], cm_timestamp = iso1\<rparr>;
                 s = s\<lparr>chatMessages := chatMessages s @ [tempMessage]\<rparr>
             in Some (selected, cm_id tempMessage, s)))"

definition handleGeneratePlan_settled :: "Project \<Rightarrow> string \<Rightarrow> plan_reply promise \<Rightarrow> nat \<Rightarrow> home_state \<Rightarrow> home_state" where
  "handleGeneratePlan_settled selected tempId settled now2 s =
     (let s =
        (case settled of
           Inr result \<Rightarrow>
             (let s = s\<lparr>chatMessages :=
                        map (\<lambda>msg. if cm_id msg = tempId
                               then msg\<lparr>cm_response := plan result, cm_id := ''msg-'' @ decimal now2\<rparr>
                               else msg) (chatMessages s)\<rparr>
              in if \<not> needs_clarification result
                 then s\<lparr>selectedProject := Some (selected\<lparr>project_plan := Some (plan result)\<rparr>),
                        projects := map (\<lambda>p. if project_id p = project_id selected
                                               then p\<lparr>project_plan := Some (plan result)\<rparr>
                                               else p) (projects s)\<rparr>
                 else s)
         | Inl error \<Rightarrow>
             s\<lparr>chatMessages :=
               map (\<lambda>msg. if cm_id msg = tempId
                      then msg\<lparr>cm_response :=
                        ''Sorry, I encountered an error generating the plan. Please try again.''\<rparr>
                      else msg) (chatMessages s)\<rparr>)
      in s\<lparr>planGenerating := False, chatLoading := False\<rparr>)"

text \<open>
  \<open>handleSendMessage\<close>. It closes over the selected project and \<open>planGenerating\<close>.
  After the \<open>await\<close> it reads the reply of \<open>generatePlan\<close> or of \<open>sendChatMessage\<close>,
  whichever it called, and may reload the project; \<open>details\<close> is how that reload settles.
\<close>

record send_closure =
  sc_planGenerating :: bool
  sc_userMessage :: string
  sc_tempId :: string

definition handleSendMessage_begin :: "nat \<Rightarrow> string \<Rightarrow> home_state \<Rightarrow> (send_closure \<times> home_state) option" where
  "handleSendMessage_begin now1 iso1 s =
     (if selectedProject s = None \<or> trim (chatInput s) = [] \<or> chatLoading s then None
      else
        (let userMessage = trim (chatInput s);
             planGenerating0 = planGenerating s;
             s = s\<lparr>chatInput := [], chatLoading := True\<rparr>;
             tempMessage = \<lparr>cm_id = ''temp-'' @ decimal now1, cm_message = userMessage,
                             cm_response = [], cm_timestamp = iso1\<rparr>;
             s = s\<lparr>chatMessages := chatMessages s @ [tempMessage]\<rparr>
         in Some (\<lparr>sc_planGenerating = planGenerating0, sc_userMessage = userMessage,
                    sc_tempId = cm_id tempMessage\<rparr>, s)))"

definition sorry_message :: "string \<Rightarrow> home_state \<Rightarrow> home_state" where
  \<comment> \<open>the \<open>catch\<close> body\<close>
  "sorry_message tempId s =
     s\<lparr>chatMessages :=
         map (\<lambda>msg. if cm_id msg = tempId
                then msg\<lparr>cm_response := ''Sorry, I encountered an error. Please try again.''\<rparr>
                else msg) (chatMessages s),
       planGenerating := False\<rparr>"

definition answer_message :: "string \<Rightarrow> string \<Rightarrow> nat \<Rightarrow> home_state \<Rightarrow> home_state" where
  \<comment> \<open>the last statement of the \<open>try\<close> body\<close>
  "answer_message tempId response now2 s =
     s\<lparr>chatMessages :=
         map (\<lambda>msg. if cm_id msg = tempId
                then msg\<lparr>cm_response := response, cm_id := ''msg-'' @ decimal now2\<rparr>
                else msg) (chatMessages s)\<rparr>"

definition handleSendMessage_settled :: "send_closure \<Rightarrow> plan_reply promise \<Rightarrow> chat_reply promise \<Rightarrow> Project promise \<Rightarrow> nat \<Rightarrow> home_state \<Rightarrow> home_state" where
  "handleSendMessage_settled c plan_settled chat_settled details now2 s =
     (let isPlanRequest = sublist ''plan'' (toLowerCase (sc_userMessage c))
                          \<or> sublist ''execution'' (toLowerCase (sc_userMessage c))
                          \<or> sc_planGenerating c;
          s =
            (if isPlanRequest \<and> sc_planGenerating c then
               (case plan_settled of
                  Inr result \<Rightarrow>
                    (let s = (if \<not> needs_clarification result
                              then (loadProjectDetails_settled details s)\<lparr>planGenerating := False\<rparr>
                              else s)
                     in answer_message (sc_tempId c) (plan result) now2 s)
                | Inl error \<Rightarrow> sorry_message (sc_tempId c) s)
             else
               (case chat_settled of
                  Inr chatResponse \<Rightarrow>
                    (let s = (if plan_updated chatResponse
                              then loadProjectDetails_settled details s
                              else s)
                     in answer_message (sc_tempId c) (reply_response chatResponse) now2 s)
                | Inl error \<Rightarrow> sorry_message (sc_tempId c) s))
      in s\<lparr>chatLoading := False\<rparr>)"

section \<open>The OAuth callback page\<close>

datatype callback_status = Processing | Success | Failed

record callback_state =
  cb_status :: callback_status
  cb_message :: string

text \<open>\<open>setTimeout(() => navigate(path), delay)\<close>\<close>

record navigation =
  nav_delay :: nat
  nav_path :: string

text \<open>
  The effect of the page, up to the \<open>await\<close> inside \<open>completeOAuth\<close>. \<open>code\<close>, \<open>state\<close>
  and \<open>error\<close> are what \<open>searchParams.get\<close> gives: \<open>None\<close> for a parameter the URL does
  not carry. The status \<open>'error'\<close> is \<open>Failed\<close>.
\<close>

definition OAuthCallback_effect :: "string option \<Rightarrow> string option \<Rightarrow> string option \<Rightarrow> string \<Rightarrow> callback_state \<Rightarrow> api_call option \<times> navigation option \<times> callback_state" where
  "OAuthCallback_effect code state error origin s =
     (if truthy_string error then
        (None, Some \<lparr>nav_delay = 3000, nav_path = ''/settings''\<rparr>,
         s\<lparr>cb_status := Failed, cb_message := ''Authentication failed. Please try again.''\<rparr>)
      else if \<not> truthy_string code \<or> \<not> truthy_string state then
        (None, Some \<lparr>nav_delay = 3000, nav_path = ''/settings''\<rparr>,
         s\<lparr>cb_status := Failed, cb_message := ''Missing authorization code. Please try again.''\<rparr>)
      else
        (let redirectUri = origin @ ''/settings/oauth/callback''
         in (Some (CompleteGoogleCalendarOAuth (or_empty code) (or_empty state) redirectUri), None, s)))"

definition completeOAuth_settled :: "unit promise \<Rightarrow> callback_state \<Rightarrow> navigation \<times> callback_state" where
  "completeOAuth_settled settled s =
     (case settled of
        Inr u \<Rightarrow>
          (\<lparr>nav_delay = 2000, nav_path = ''/settings?connected=true''\<rparr>,
           s\<lparr>cb_status := Success, cb_message := ''Google Calendar connected successfully!''\<rparr>)
      | Inl err \<Rightarrow>
          (\<lparr>nav_delay = 3000, nav_path = ''/settings''\<rparr>,
           s\<lparr>cb_status := Failed, cb_message := error_message err\<rparr>))"

section \<open>The auth context\<close>

record auth_state =
  user :: "User option"
  auth_loading :: bool

definition initial_auth :: auth_state where
  "initial_auth = \<lparr>user = None, auth_loading = True\<rparr>"

definition isAuthenticated :: "auth_state \<Rightarrow> bool" where
  \<comment> \<open>\<open>!!user\<close>: an object is truthy, \<open>null\<close> is not\<close>
  "isAuthenticated s = (case user s of None \<Rightarrow> False | Some u \<Rightarrow> True)"

text \<open>
  The effect that runs on mount: with a stored token it calls \<open>authApi.verifyToken\<close>,
  without one it only clears \<open>loading\<close>. The world is the storage and the cells.
\<close>

definition mount_begin :: "storage \<times> auth_state \<Rightarrow> api_call option \<times> storage \<times> auth_state" where
  "mount_begin w =
     (let token = getItem (fst w) ''token''
      in if truthy_string token then (Some VerifyToken, w)
         else (None, fst w, (snd w)\<lparr>auth_loading := False\<rparr>))"

definition mount_settled :: "User promise \<Rightarrow> storage \<times> auth_state \<Rightarrow> storage \<times> auth_state" where
  "mount_settled settled w =
     (let w = (case settled of
                 Inr userData \<Rightarrow> (fst w, (snd w)\<lparr>user := Some userData\<rparr>)
               | Inl err \<Rightarrow> (removeItem (fst w) ''token'', snd w))
      in (fst w, (snd w)\<lparr>auth_loading := False\<rparr>))"

text \<open>
  \<open>signup\<close> and \<open>login\<close> after their call settles: a rejection passes to the caller and
  nothing is stored.
\<close>

definition login_settled :: "(User \<times> string) promise \<Rightarrow> storage \<times> auth_state \<Rightarrow> unit promise \<times> storage \<times> auth_state" where
  "login_settled settled w =
     (case settled of
        Inr (userData, token) \<Rightarrow> (Inr (), setItem (fst w) ''token'' token, (snd w)\<lparr>user := Some userData\<rparr>)
      | Inl err \<Rightarrow> (Inl err, w))"

definition signup_settled :: "(User \<times> string) promise \<Rightarrow> storage \<times> auth_state \<Rightarrow> unit promise \<times> storage \<times> auth_state" where
  "signup_settled settled w =
     (case settled of
        Inr (userData, token) \<Rightarrow> (Inr (), setItem (fst w) ''token'' token, (snd w)\<lparr>user := Some userData\<rparr>)
      | Inl err \<Rightarrow> (Inl err, w))"

definition logout :: "storage \<times> auth_state \<Rightarrow> storage \<times> auth_state" where
  "logout w = (removeItem (fst w) ''token'', (snd w)\<lparr>user := None\<rparr>)"

section \<open>The password form of the settings page\<close>

record settings_state =
  st_error :: string
  st_success :: string
  st_loading :: bool
  currentPassword :: string
  newPassword :: string
  confirmPassword :: string

definition handlePasswordUpdate_begin :: "settings_state \<Rightarrow> api_call option \<times> settings_state" where
  "handlePasswordUpdate_begin s =
     (let s = s\<lparr>st_error := [], st_success := []\<rparr>
      in if newPassword s \<noteq> confirmPassword s then
           (None, s\<lparr>st_error := ''New passwords do not match''\<rparr>)
         else if length (newPassword s) < 6 then
           (None, s\<lparr>st_error := ''New password must be at least 6 characters long''\<rparr>)
         else
           (Some (UpdatePassword (currentPassword s) (newPassword s)), s\<lparr>st_loading := True\<rparr>))"

definition handlePasswordUpdate_settled :: "unit promise \<Rightarrow> settings_state \<Rightarrow> settings_state" where
  "handlePasswordUpdate_settled settled s =
     (let s = (case settled of
                 Inr u \<Rightarrow> s\<lparr>st_success := ''Password updated successfully!'',
                            currentPassword := [], newPassword := [], confirmPassword := []\<rparr>
               | Inl err \<Rightarrow> s\<lparr>st_error := error_message err\<rparr>)
      in s\<lparr>st_loading := False\<rparr>)"

section \<open>The project store\<close>

text \<open>
  Modelled from the spec: the backend's handlers for creating, fetching and updating a
  project are not among the sources (only the client's calls to them are). The spec's
  data model gives a Project an id, the owning user, a required title, an optional
  description, due date and plan text, and created and updated timestamps; its API
  layer checks ownership on every operation and answers a missing or foreign project
  with NotFound, a missing title with a validation error.
\<close>

datatype api_error = Validation | NotFound

text \<open>
  Modelled from the spec: a stored Project with the attributes of the spec's data model
  (the table's declaration is not among the sources).
\<close>

record stored_project =
  sp_owner :: string
  sp_title :: string
  sp_description :: "string option"
  sp_due_date :: "string option"
  sp_plan :: "string option"
  sp_created :: nat
  sp_updated :: nat

text \<open>
  Modelled from the spec: the persistence layer's projects, by id, and the next id it
  gives out (not among the sources).
\<close>

record store =
  rows :: "nat \<rightharpoonup> stored_project"
  next_id :: nat

text \<open>
  Modelled from the spec: creating a project (the handler is not among the sources). The
  title is required; the new project belongs to the caller and has no plan yet.
\<close>

definition create_project :: "string \<Rightarrow> nat \<Rightarrow> project_data \<Rightarrow> store \<Rightarrow> api_error + (nat \<times> store)" where
  "create_project caller now d st =
     (case data_title d of
        None \<Rightarrow> Inl Validation
      | Some t \<Rightarrow>
          if t = [] then Inl Validation
          else Inr (next_id st,
                 st\<lparr>rows := (rows st)(next_id st \<mapsto>
                       \<lparr>sp_owner = caller, sp_title = t, sp_description = data_description d,
                        sp_due_date = data_due_date d, sp_plan = None,
                        sp_created = now, sp_updated = now\<rparr>),
                    next_id := Suc (next_id st)\<rparr>))"

text \<open>
  Modelled from the spec: fetching a project (the handler is not among the sources),
  with the ownership check: a project of another user is answered like a missing one.
\<close>

definition get_project :: "string \<Rightarrow> nat \<Rightarrow> store \<Rightarrow> api_error + stored_project" where
  "get_project caller i st =
     (case rows st i of
        None \<Rightarrow> Inl NotFound
      | Some p \<Rightarrow> if sp_owner p = caller then Inr p else Inl NotFound)"

text \<open>
  Modelled from the spec: updating a project (the handler is not among the sources). It
  writes the fields its body carries, and the updated timestamp; \<open>new_plan\<close> is the
  \<open>plan\<close> field of the body.
\<close>

definition update_project :: "string \<Rightarrow> nat \<Rightarrow> nat \<Rightarrow> project_data \<Rightarrow> string option \<Rightarrow> store \<Rightarrow> api_error + store" where
  "update_project caller now i d new_plan st =
     (case get_project caller i st of
        Inl e \<Rightarrow> Inl e
      | Inr p \<Rightarrow>
          Inr (st\<lparr>rows := (rows st)(i \<mapsto>
                 p\<lparr>sp_title := (case data_title d of None \<Rightarrow> sp_title p | Some t \<Rightarrow> t),
                   sp_description := (case data_description d of None \<Rightarrow> sp_description p | Some v \<Rightarrow> Some v),
                   sp_due_date := (case data_due_date d of None \<Rightarrow> sp_due_date p | Some v \<Rightarrow> Some v),
                   sp_plan := (case new_plan of None \<Rightarrow> sp_plan p | Some v \<Rightarrow> Some v),
                   sp_updated := now\<rparr>)\<rparr>))"

section \<open>Whole runs and example states\<close>

text \<open>
  A submit handler run to its end: \<open>server\<close> settles the one call. The result is the
  calls the run made and the final state.
\<close>

definition handleSubmit_run :: "nat \<Rightarrow> string \<Rightarrow> nat \<Rightarrow> string \<Rightarrow> (api_call \<Rightarrow> ChatResponse promise) \<Rightarrow> nat \<Rightarrow> chat_state \<Rightarrow> api_call list \<times> chat_state" where
  "handleSubmit_run now1 iso1 now2 iso2 server now3 s =
     (case handleSubmit_begin now1 iso1 now2 iso2 s of
        None \<Rightarrow> ([], s)
      | Some (pend, call, s1) \<Rightarrow> ([call], handleSubmit_settled pend (server call) now3 s1))"

definition Chat_handleSubmit_run :: "nat \<Rightarrow> string \<Rightarrow> (api_call \<Rightarrow> string promise) \<Rightarrow> nat \<Rightarrow> plain_chat_state \<Rightarrow> api_call list \<times> plain_chat_state" where
  "Chat_handleSubmit_run now1 iso1 server now2 s =
     (case Chat_handleSubmit_begin now1 iso1 s of
        None \<Rightarrow> ([], s)
      | Some (tempId, call, s1) \<Rightarrow> ([call], Chat_handleSubmit_settled tempId (server call) now2 s1))"

definition example_proposal :: "string \<Rightarrow> bool \<Rightarrow> EditableProject" where
  "example_proposal i sel =
     \<lparr>p_title = ''Learn Go'', p_description = ''Read a book'', p_due_date = Null,
      p_id = i, p_selected = sel, p_conversationId = ''conv-1''\<rparr>"

definition example_chat :: chat_state where
  "example_chat =
     \<lparr>conversations =
        [\<lparr>c_id = ''conv-1'', c_title = ''goals'',
          c_messages =
            [\<lparr>m_id = ''msg-1'', m_message = ''goals'', m_response = ''two ideas'',
              m_timestamp = ''2025-01-01'',
              m_proposedProjects = Some [example_proposal ''a'' True, example_proposal ''b'' False],
              m_requiresConfirmation = Some True\<rparr>],
          c_createdAt = ''2025-01-01''\<rparr>],
      currentConversationId = Some ''conv-1'', input = '' hello '', loading = False,
      creatingProjects = None\<rparr>"

definition example_plain :: plain_chat_state where
  "example_plain =
     \<lparr>messages = [\<lparr>cm_id = ''msg-1'', cm_message = ''hi'', cm_response = ''hello there'',
                    cm_timestamp = ''2025-01-01''\<rparr>],
      chat_input = '' hello '', chat_loading = False\<rparr>"

definition example_project :: Project where
  "example_project =
     \<lparr>project_id = ''p1'', project_title = ''Learn Go'', project_description = Some ''Read a book'',
      project_due_date = None, project_plan = Some ''week 1: basics'',
      project_created_at = ''2025-01-01'', project_updated_at = ''2025-01-02'', project_todos = []\<rparr>"

definition example_home :: home_state where
  "example_home =
     \<lparr>projects = [example_project], selectedProject = Some example_project,
      chatMessages = [\<lparr>cm_id = ''temp-7'',
                        cm_message = ''Please generate a detailed execution plan for this project.'',
                        cm_response = [], cm_timestamp = ''2025-01-03''\<rparr>],
      chatInput = [], chatLoading = True, planGenerating = True\<rparr>"

definition example_idle_home :: home_state where
  "example_idle_home =
     \<lparr>projects = [example_project], selectedProject = Some example_project,
      chatMessages = [], chatInput = [], chatLoading = False, planGenerating = False\<rparr>"

definition example_closure :: send_closure where
  "example_closure =
     \<lparr>sc_planGenerating = True, sc_userMessage = ''I am a beginner'', sc_tempId = ''temp-7''\<rparr>"

definition example_settings :: settings_state where
  "example_settings =
     \<lparr>st_error = [], st_success = ''saved'', st_loading = False, currentPassword = ''old-secret'',
      newPassword = ''abc'', confirmPassword = ''abc''\<rparr>"

definition example_user :: User where
  "example_user = \<lparr>user_id = ''u1'', user_email = ''a@x.com'', user_name = None\<rparr>"

definition example_store :: store where
  "example_store = \<lparr>rows = Map.empty, next_id = 0\<rparr>"

definition example_data :: project_data where
  "example_data = \<lparr>data_title = Some ''Learn Go'', data_description = Some ''Read a book'',
                    data_due_date = Some ''2025-06-01''\<rparr>"

definition example_row :: stored_project where
  "example_row = \<lparr>sp_owner = ''u1'', sp_title = ''Learn Go'', sp_description = Some ''Read a book'',
                   sp_due_date = Some ''2025-06-01'', sp_plan = None, sp_created = 10, sp_updated = 10\<rparr>"

definition example_created :: store where
  "example_created = \<lparr>rows = [0 \<mapsto> example_row], next_id = Suc 0\<rparr>"

section \<open>Properties of the request helper\<close>

lemma decimal_500: "decimal 500 = ''500''"
  by (simp add: decimal.simps digit_char_def)

lemma lower_Authorization: "toLowerCase ''Authorization'' = ''authorization''"
  by (simp add: toLowerCase_def lower_char_def)

lemma lower_Content_Type: "toLowerCase ''Content-Type'' = ''content-type''"
  by (simp add: toLowerCase_def lower_char_def)

lemma name_Authorization: "is_header_name ''Authorization''"
  by (simp add: is_header_name_def is_tchar_def)

lemma name_Content_Type: "is_header_name ''Content-Type''"
  by (simp add: is_header_name_def is_tchar_def)

lemma value_json:
  "normalize_value ''application/json'' = ''application/json''"
  "is_header_value ''application/json''"
  by (simp_all add: normalize_value_def is_http_whitespace_def is_header_value_def is_tab_or_space_def)

lemma set_Content_Type:
  "headers_set Map.empty ''Content-Type'' ''application/json''
     = Inr [''content-type'' \<mapsto> ''application/json'']"
  by (simp add: headers_set_def name_Content_Type value_json lower_Content_Type Let_def)

lemma append_Content_Type:
  "headers_append Map.empty ''Content-Type'' ''application/json''
     = Inr [''content-type'' \<mapsto> ''application/json'']"
  by (simp add: headers_append_def name_Content_Type value_json lower_Content_Type Let_def)

lemma set_Authorization:
  "headers_set h ''Authorization'' v =
     (if is_header_value (normalize_value v) then Inr (h(''authorization'' \<mapsto> normalize_value v))
      else Inl (TypeError (invalid_header_message ''value'')))"
  by (simp add: headers_set_def name_Authorization lower_Authorization Let_def)

lemma append_Authorization:
  "headers_append [''content-type'' \<mapsto> c] ''Authorization'' v =
     (if is_header_value (normalize_value v)
      then Inr ([''content-type'' \<mapsto> c, ''authorization'' \<mapsto> normalize_value v])
      else Inl (TypeError (invalid_header_message ''value'')))"
  by (simp add: headers_append_def name_Authorization lower_Authorization Let_def)

lemma outgoing_cases:
  "outgoing env ls endpoint options =
     (case getItem ls ''token'' of
        None \<Rightarrow> Inr \<lparr>req_url = API_BASE_URL env @ endpoint, req_method = opt_method options,
                     req_body = opt_body options, req_headers = base_headers options\<rparr>
      | Some t \<Rightarrow>
          if t = [] then Inr \<lparr>req_url = API_BASE_URL env @ endpoint, req_method = opt_method options,
                               req_body = opt_body options, req_headers = base_headers options\<rparr>
          else if is_header_value (normalize_value (''Bearer '' @ t))
          then Inr \<lparr>req_url = API_BASE_URL env @ endpoint, req_method = opt_method options,
                     req_body = opt_body options,
                     req_headers = (base_headers options)(''authorization'' \<mapsto>
                                      normalize_value (''Bearer '' @ t))\<rparr>
          else Inl (TypeError (invalid_header_message ''value'')))"
  by (simp add: outgoing_def headers_has_def set_Content_Type set_Authorization base_headers_def
      or_empty_def Let_def split: option.splits)

lemma outgoing_plain_cases:
  "outgoing_plain env ls endpoint options =
     (case getItem ls ''token'' of
        None \<Rightarrow> Inr \<lparr>req_url = API_BASE_URL env @ endpoint, req_method = opt_method options,
                     req_body = opt_body options,
                     req_headers = [''content-type'' \<mapsto> ''application/json'']\<rparr>
      | Some t \<Rightarrow>
          if t = [] then Inr \<lparr>req_url = API_BASE_URL env @ endpoint, req_method = opt_method options,
                               req_body = opt_body options,
                               req_headers = [''content-type'' \<mapsto> ''application/json'']\<rparr>
          else if is_header_value (normalize_value (''Bearer '' @ t))
          then Inr \<lparr>req_url = API_BASE_URL env @ endpoint, req_method = opt_method options,
                     req_body = opt_body options,
                     req_headers = [''content-type'' \<mapsto> ''application/json'',
                                    ''authorization'' \<mapsto> normalize_value (''Bearer '' @ t)]\<rparr>
          else Inl (TypeError (invalid_header_message ''value'')))"
  by (simp add: outgoing_plain_def append_Content_Type append_Authorization
      or_empty_def Let_def split: option.splits)




text \<open>
  What the helper answers to a response that is not ok, by the shape of its body, and to
  one that is ok.
\<close>

lemma settle_not_ok:
  assumes "\<not> ok response"
  shows "settle conv (Inr response) =
     (case json_result response of
        Inl e \<Rightarrow> Inl (Error ''Request failed'')
      | Inr JNull \<Rightarrow> Inl (TypeError (null_property_message ''error''))
      | Inr (JObj kvs) \<Rightarrow>
          (case or_else conv (map_of (rev kvs) ''error'')
                  (''HTTP error! status: '' @ decimal (status response)) of
             Inl e \<Rightarrow> Inl e
           | Inr message \<Rightarrow> Inl (Error message))
      | Inr _ \<Rightarrow> Inl (Error (''HTTP error! status: '' @ decimal (status response))))"
proof (cases "json_result response")
  case (Inl e)
  with assms show ?thesis
    by (simp add: settle_def or_else_def)
next
  case (Inr j)
  have none: "or_else conv None fallback = Inr fallback" for fallback
    by (simp add: or_else_def)
  from assms Inr show ?thesis
    by (cases j) (simp_all add: settle_def none)
qed

lemma settle_ok: "ok response \<Longrightarrow> settle conv (Inr response) = json_result response"
  by (simp add: settle_def)

text \<open>
  Claim C4. A response that is not ok makes the helper throw: the body's \<open>error\<close> field
  when it has a non-empty one, \<open>Request failed\<close> when the body is not JSON, and
  \<open>HTTP error! status: <code>\<close> otherwise. The last case is missed for the body \<open>null\<close>,
  which is JSON without an \<open>error\<close> field: reading \<open>error.error\<close> throws a TypeError
  before the message is chosen, in both versions of the helper, whenever the request is
  sent at all (as it is, for one, with nothing in storage).
\<close>

theorem request_null_error_body:
  "settle conv (Inr \<lparr>ok = False, status = 500, json_result = Inr JNull\<rparr>)
     = Inl (TypeError (null_property_message ''error''))
   \<and> request env ls conv (\<lambda>r. Inr \<lparr>ok = False, status = 500, json_result = Inr JNull\<rparr>) endpoint options
     = (case outgoing env ls endpoint options of
          Inl e \<Rightarrow> Inl e
        | Inr r \<Rightarrow> Inl (TypeError (null_property_message ''error'')))
   \<and> request_plain env ls conv (\<lambda>r. Inr \<lparr>ok = False, status = 500, json_result = Inr JNull\<rparr>) endpoint options
     = (case outgoing_plain env ls endpoint options of
          Inl e \<Rightarrow> Inl e
        | Inr r \<Rightarrow> Inl (TypeError (null_property_message ''error'')))
   \<and> request env Map.empty conv (\<lambda>r. Inr \<lparr>ok = False, status = 500, json_result = Inr JNull\<rparr>) endpoint options
     = Inl (TypeError (null_property_message ''error''))
   \<and> request_plain env Map.empty conv (\<lambda>r. Inr \<lparr>ok = False, status = 500, json_result = Inr JNull\<rparr>) endpoint options
     = Inl (TypeError (null_property_message ''error''))
   \<and> TypeError (null_property_message ''error'') \<noteq> Error (''HTTP error! status: '' @ decimal 500)"
  by (simp add: request_def request_plain_def settle_def outgoing_cases outgoing_plain_cases
      getItem_def split: sum.splits)





section \<open>Properties of the goal-conversation chat page\<close>

lemma list_all2_map_same: "list_all2 P xs (map f xs) = (\<forall>x\<in>set xs. P x (f x))"
  by (simp add: list_all2_map2 list_all2_same)

lemma rel_option_map_same: "rel_option P x (map_option f x) = (\<forall>y. x = Some y \<longrightarrow> P y (f y))"
  by (cases x) simp_all

lemma in_conversation_twice:
  "in_conversation cid f (in_conversation cid g convs) = in_conversation cid (f \<circ> g) convs"
  by (simp add: in_conversation_def)

lemma in_conversation_ident: "(\<And>ms. f ms = ms) \<Longrightarrow> in_conversation cid f convs = convs"
  by (simp add: in_conversation_def map_idI)

lemma on_proposals_twice: "on_proposals f (on_proposals g ms) = on_proposals (f \<circ> g) ms"
  by (simp add: on_proposals_def option.map_comp)

lemma on_proposals_ident:
  assumes "\<And>ps. f ps = ps"
  shows "on_proposals f ms = ms"
proof -
  have "map_option f x = x" for x
    by (cases x) (simp_all add: assms)
  then show ?thesis
    by (simp add: on_proposals_def)
qed

lemma map_twice_ident:
  assumes "\<And>x. f (f x) = x"
  shows "(map f \<circ> map f) xs = xs"
proof -
  have "map (\<lambda>x. f (f x)) xs = xs"
    by (rule map_idI) (simp add: assms)
  then show ?thesis
    by (simp add: comp_def)
qed

lemma toggle_involution:
  "handleToggleProjectSelection pid (handleToggleProjectSelection pid s) = s"
proof (cases "truthy_string (currentConversationId s)")
  case False
  then show ?thesis by (simp add: handleToggleProjectSelection_def)
next
  case True
  let ?t = "map (\<lambda>proj. if p_id proj = pid then proj\<lparr>p_selected := \<not> p_selected proj\<rparr> else proj)"
  have "on_proposals ?t (on_proposals ?t ms) = ms" for ms
    unfolding on_proposals_twice by (rule on_proposals_ident) (rule map_twice_ident, simp)
  then have "in_conversation cid (on_proposals ?t) (in_conversation cid (on_proposals ?t) convs) = convs"
    for cid convs
    unfolding in_conversation_twice by (intro in_conversation_ident) simp
  with True show ?thesis
    by (simp add: handleToggleProjectSelection_def)
qed

lemma toggle_frame:
  "list_all2 (\<lambda>conv conv'.
       conv'\<lparr>c_messages := c_messages conv\<rparr> = conv
       \<and> list_all2 (\<lambda>msg msg'.
            msg'\<lparr>m_proposedProjects := m_proposedProjects msg\<rparr> = msg
            \<and> rel_option (list_all2 (\<lambda>proj proj'.
                 proj'\<lparr>p_selected := p_selected proj\<rparr> = proj
                 \<and> p_selected proj' =
                     (if truthy_string (currentConversationId s)
                         \<and> currentConversationId s = Some (c_id conv) \<and> p_id proj = pid
                      then \<not> p_selected proj else p_selected proj)))
              (m_proposedProjects msg) (m_proposedProjects msg'))
          (c_messages conv) (c_messages conv'))
     (conversations s) (conversations (handleToggleProjectSelection pid s))"
  by (auto simp add: handleToggleProjectSelection_def in_conversation_def on_proposals_def
      list_all2_map_same rel_option_map_same or_empty_def list_all2_same option.rel_refl_strong
      split: option.splits)

text \<open>
  Claim C10. Toggling a proposal twice with the same id gives the state back. One toggle
  leaves every cell but the conversations alone, keeps the conversations, their messages
  and the proposals of each message in number and order, leaves every field of a
  conversation but its messages and every field of a message but its proposals alone,
  and changes a proposal in its \<open>selected\<close> flag only: the flag is negated when the
  proposal is in the current conversation and has the toggled id, and kept otherwise.
\<close>

theorem toggle_selection_involution:
  "handleToggleProjectSelection projectId (handleToggleProjectSelection projectId s) = s
   \<and> (handleToggleProjectSelection projectId s)\<lparr>conversations := conversations s\<rparr> = s
   \<and> list_all2 (\<lambda>conv conv'.
         conv'\<lparr>c_messages := c_messages conv\<rparr> = conv
         \<and> list_all2 (\<lambda>msg msg'.
              msg'\<lparr>m_proposedProjects := m_proposedProjects msg\<rparr> = msg
              \<and> rel_option (list_all2 (\<lambda>proj proj'.
                   proj'\<lparr>p_selected := p_selected proj\<rparr> = proj
                   \<and> p_selected proj' =
                       (if truthy_string (currentConversationId s)
                           \<and> currentConversationId s = Some (c_id conv) \<and> p_id proj = projectId
                        then \<not> p_selected proj else p_selected proj)))
                (m_proposedProjects msg) (m_proposedProjects msg'))
            (c_messages conv) (c_messages conv'))
       (conversations s) (conversations (handleToggleProjectSelection projectId s))"
proof -
  have "(handleToggleProjectSelection projectId s)\<lparr>conversations := conversations s\<rparr> = s"
    by (simp add: handleToggleProjectSelection_def)
  with toggle_involution [of projectId s] toggle_frame [of s projectId]
  show ?thesis by blast
qed

theorem toggle_selection_involution_witness:
  "handleToggleProjectSelection ''b'' (handleToggleProjectSelection ''b'' example_chat) = example_chat
   \<and> map p_selected (allProjects example_chat) = [True, False]
   \<and> map p_selected (allProjects (handleToggleProjectSelection ''b'' example_chat)) = [True, True]"
proof -
  have "map p_selected (allProjects example_chat) = [True, False]"
    by (simp add: allProjects_def currentConversation_def example_chat_def example_proposal_def)
  moreover have "map p_selected (allProjects (handleToggleProjectSelection ''b'' example_chat)) = [True, True]"
    by (simp add: allProjects_def currentConversation_def example_chat_def example_proposal_def
        handleToggleProjectSelection_def in_conversation_def on_proposals_def or_empty_def)
  ultimately show ?thesis
    using toggle_selection_involution [of "''b''" example_chat] by simp
qed

lemma create_loop_calls: "fst (create_loop outcome i ps) = map create_call ps"
  by (induction ps arbitrary: i) (simp_all add: split_def Let_def)

lemma move_calls_eq:
  "move_calls (handleMoveSelectedProjects outcome s) = map create_call (filter p_selected (allProjects s))"
proof (cases "filter p_selected (allProjects s) = []")
  case True
  then show ?thesis by (simp add: handleMoveSelectedProjects_def)
next
  case False
  then show ?thesis
    using create_loop_calls [of outcome 0 "filter p_selected (allProjects s)"]
    by (simp add: handleMoveSelectedProjects_def Let_def split_def)
qed

lemma submit_calls:
  "calls_of (Submit now1 iso1 now2 iso2) s =
     (if trim (input s) = [] \<or> loading s then [] else [SendMessage (trim (input s)) None])"
  by (simp add: handleSubmit_begin_def Let_def split_def)

lemma edit_calls:
  "c \<in> set (calls_of (EditProjects editPrompt) s) \<Longrightarrow> \<not> is_create c"
  by (auto simp add: handleEditProjects_begin_def split: if_splits)

lemma create_only_from_move:
  assumes "c \<in> set (calls_of h s)" and "is_create c"
  shows "\<exists>outcome. h = MoveSelectedProjects outcome"
proof (cases h)
  case (EditProjects editPrompt)
  with assms edit_calls show ?thesis by blast
next
  case (Submit now1 iso1 now2 iso2)
  with assms have "c \<in> set (if trim (input s) = [] \<or> loading s then []
                        else [SendMessage (trim (input s)) None])"
    by (simp only: submit_calls)
  with assms show ?thesis by (auto split: if_splits)
qed (use assms in simp_all)

lemma settled_frame:
  "list_all2 (\<lambda>conv conv'.
       conv'\<lparr>c_messages := c_messages conv\<rparr> = conv
       \<and> list_all2 (\<lambda>msg msg'.
            if c_id conv = pend_conversationId pend \<and> m_id msg = pend_tempId pend
            then m_message msg' = m_message msg \<and> m_timestamp msg' = m_timestamp msg
                 \<and> m_response msg' =
                     (case settled of
                        Inr chatResponse \<Rightarrow> r_response chatResponse
                      | Inl e \<Rightarrow> ''Sorry, I encountered an error. Please try again.'')
                 \<and> (\<forall>chatResponse. settled = Inr chatResponse \<longrightarrow>
                       m_proposedProjects msg' =
                         (case r_proposed_projects chatResponse of
                            None \<Rightarrow> None
                          | Some ps \<Rightarrow>
                              if ps = [] then None
                              else Some (map (editable (''msg-'' @ decimal now3) (pend_conversationId pend))
                                           (enumerate 0 ps))))
            else msg' = msg)
          (c_messages conv) (c_messages conv'))
     (conversations s) (conversations (handleSubmit_settled pend settled now3 s))"
  by (cases settled)
     (auto simp add: handleSubmit_settled_def in_conversation_def list_all2_map_same Let_def
        list_all2_same split: option.splits)

lemma settled_cells:
  "(handleSubmit_settled pend settled now3 s)\<lparr>conversations := conversations s, loading := loading s\<rparr> = s"
  by (cases settled) (simp_all add: handleSubmit_settled_def Let_def)

lemma trim_example: "trim '' hello '' = ''hello''"
  by (simp add: trim_def is_space_def)

text \<open>
  Claim C1. Of the handlers of the page only the move-selected action calls
  \<open>projectsApi.create\<close>. A submit makes the one chat call (or none, on the early
  return); when the reply arrives it changes only the conversations and \<open>loading\<close>, and
  of the conversations only the provisional message, which takes the proposals of the
  reply, none of them selected. The move-selected action makes one create call for each
  proposal of the current conversation that is selected at that moment, in order.
\<close>

theorem create_only_on_move_selected:
  "(\<forall>c\<in>set (calls_of h s). is_create c \<longrightarrow> (\<exists>outcome. h = MoveSelectedProjects outcome))
   \<and> calls_of (Submit now1 iso1 now2 iso2) s =
       (if trim (input s) = [] \<or> loading s then [] else [SendMessage (trim (input s)) None])
   \<and> calls_of (MoveSelectedProjects outcome) s = map create_call (filter p_selected (allProjects s))
   \<and> (handleSubmit_settled pend (Inr chatResponse) now3 s)
        \<lparr>conversations := conversations s, loading := loading s\<rparr> = s
   \<and> list_all2 (\<lambda>conv conv'.
         conv'\<lparr>c_messages := c_messages conv\<rparr> = conv
         \<and> list_all2 (\<lambda>msg msg'.
              if c_id conv = pend_conversationId pend \<and> m_id msg = pend_tempId pend
              then m_proposedProjects msg' =
                     (case r_proposed_projects chatResponse of
                        None \<Rightarrow> None
                      | Some ps \<Rightarrow>
                          if ps = [] then None
                          else Some (map (editable (''msg-'' @ decimal now3) (pend_conversationId pend))
                                       (enumerate 0 ps)))
              else msg' = msg)
            (c_messages conv) (c_messages conv'))
       (conversations s) (conversations (handleSubmit_settled pend (Inr chatResponse) now3 s))
   \<and> \<not> p_selected (editable stamp conversationId ip)"
proof -
  have a: "\<forall>c\<in>set (calls_of h s). is_create c \<longrightarrow> (\<exists>outcome. h = MoveSelectedProjects outcome)"
    using create_only_from_move by blast
  have b: "calls_of (MoveSelectedProjects outcome) s = map create_call (filter p_selected (allProjects s))"
    by (simp add: move_calls_eq)
  have c: "list_all2 (\<lambda>conv conv'.
         conv'\<lparr>c_messages := c_messages conv\<rparr> = conv
         \<and> list_all2 (\<lambda>msg msg'.
              if c_id conv = pend_conversationId pend \<and> m_id msg = pend_tempId pend
              then m_proposedProjects msg' =
                     (case r_proposed_projects chatResponse of
                        None \<Rightarrow> None
                      | Some ps \<Rightarrow>
                          if ps = [] then None
                          else Some (map (editable (''msg-'' @ decimal now3) (pend_conversationId pend))
                                       (enumerate 0 ps)))
              else msg' = msg)
            (c_messages conv) (c_messages conv'))
       (conversations s) (conversations (handleSubmit_settled pend (Inr chatResponse) now3 s))"
    by (rule list_all2_mono [OF settled_frame [where settled = "Inr chatResponse"]])
       (auto elim!: list_all2_mono split: if_splits)
  have d: "\<not> p_selected (editable stamp conversationId ip)"
    by (simp add: editable_def)
  have e: "calls_of (Submit now1 iso1 now2 iso2) s =
       (if trim (input s) = [] \<or> loading s then [] else [SendMessage (trim (input s)) None])"
    by (rule submit_calls)
  have f: "(handleSubmit_settled pend (Inr chatResponse) now3 s)
        \<lparr>conversations := conversations s, loading := loading s\<rparr> = s"
    by (rule settled_cells)
  from a b c d e f show ?thesis by blast
qed

theorem create_only_on_move_selected_witness:
  "calls_of (MoveSelectedProjects (\<lambda>i. Inl (Error ''offline''))) example_chat =
     [ProjectsCreate \<lparr>data_title = Some ''Learn Go'', data_description = Some ''Read a book'',
                      data_due_date = None\<rparr>]
   \<and> is_create (ProjectsCreate \<lparr>data_title = Some ''Learn Go'', data_description = Some ''Read a book'',
                      data_due_date = None\<rparr>)
   \<and> calls_of (Submit 1 ''t1'' 2 ''t2'') example_chat = [SendMessage ''hello'' None]
   \<and> (\<exists>outcome. MoveSelectedProjects (\<lambda>i. Inl (Error ''offline'')) = MoveSelectedProjects outcome)"
proof -
  have sel: "map create_call (filter p_selected (allProjects example_chat)) =
     [ProjectsCreate \<lparr>data_title = Some ''Learn Go'', data_description = Some ''Read a book'',
                      data_due_date = None\<rparr>]"
    by (simp add: allProjects_def currentConversation_def example_chat_def example_proposal_def
        create_call_def)
  have inp: "trim (input example_chat) = ''hello''" "\<not> loading example_chat"
    by (simp_all add: example_chat_def trim_example)
  show ?thesis
    using create_only_on_move_selected
      [of "MoveSelectedProjects (\<lambda>i. Inl (Error ''offline''))" example_chat 1 "''t1''" 2 "''t2''"
          "\<lambda>i. Inl (Error ''offline'')"]
      sel inp
    by simp
qed

section \<open>Properties of the submit handlers\<close>

lemma plain_begin:
  assumes "trim (chat_input s) \<noteq> []" and "\<not> chat_loading s"
  shows "\<exists>s1. Chat_handleSubmit_begin now1 iso1 s =
            Some (decimal now1, SendMessage (trim (chat_input s)) None, s1)
         \<and> messages s1 = messages s @
              [\<lparr>cm_id = decimal now1, cm_message = trim (chat_input s), cm_response = [],
                cm_timestamp = iso1\<rparr>]"
  using assms by (simp add: Chat_handleSubmit_begin_def Let_def)

lemma plain_settled_frame:
  "list_all2 (\<lambda>msg msg'.
       if cm_id msg = tempId
       then cm_message msg' = cm_message msg \<and> cm_timestamp msg' = cm_timestamp msg
            \<and> cm_response msg' =
                (case settled of
                   Inr response \<Rightarrow> response
                 | Inl e \<Rightarrow> ''Sorry, I encountered an error. Please try again.'')
       else msg' = msg)
     (messages s) (messages (Chat_handleSubmit_settled tempId settled now2 s))"
  by (cases settled)
     (auto simp add: Chat_handleSubmit_settled_def list_all2_map_same Let_def)

lemma plain_run_calls:
  assumes "trim (chat_input s) \<noteq> []" and "\<not> chat_loading s"
  shows "fst (Chat_handleSubmit_run now1 iso1 server now2 s) = [SendMessage (trim (chat_input s)) None]"
  using assms by (simp add: Chat_handleSubmit_run_def Chat_handleSubmit_begin_def Let_def)

lemma in_conversation_rel:
  "list_all2 (\<lambda>conv conv'. conv' = (if c_id conv = cid then conv\<lparr>c_messages := f (c_messages conv)\<rparr> else conv))
     convs (in_conversation cid f convs)"
  by (simp add: in_conversation_def list_all2_map_same)

lemma submit_begin_appends:
  assumes "trim (input s) \<noteq> []" and "\<not> loading s"
  shows "\<exists>pend s1. handleSubmit_begin now1 iso1 now2 iso2 s =
            Some (pend, SendMessage (trim (input s)) None, s1)
         \<and> pend_tempId pend = ''msg-'' @ decimal now2
         \<and> pend_conversationId pend =
              (if truthy_string (currentConversationId s) then or_empty (currentConversationId s)
               else ''conv-'' @ decimal now1)
         \<and> list_all2 (\<lambda>conv conv'.
              conv' = (if c_id conv = pend_conversationId pend
                       then conv\<lparr>c_messages := c_messages conv @
                              [\<lparr>m_id = ''msg-'' @ decimal now2, m_message = trim (input s),
                                m_response = [], m_timestamp = iso2, m_proposedProjects = None,
                                m_requiresConfirmation = None\<rparr>]\<rparr>
                       else conv))
             (if truthy_string (currentConversationId s) then conversations s
              else conversations s @
                     [\<lparr>c_id = ''conv-'' @ decimal now1, c_title = take 50 (trim (input s)),
                       c_messages = [], c_createdAt = iso1\<rparr>])
             (conversations s1)"
proof -
  let ?userMsg = "\<lparr>m_id = ''msg-'' @ decimal now2, m_message = trim (input s),
                   m_response = [], m_timestamp = iso2, m_proposedProjects = None,
                   m_requiresConfirmation = None\<rparr>"
  let ?cid = "if truthy_string (currentConversationId s) then or_empty (currentConversationId s)
              else ''conv-'' @ decimal now1"
  let ?base = "if truthy_string (currentConversationId s) then conversations s
               else conversations s @
                      [\<lparr>c_id = ''conv-'' @ decimal now1, c_title = take 50 (trim (input s)),
                        c_messages = [], c_createdAt = iso1\<rparr>]"
  let ?pend = "\<lparr>pend_conversationId = ?cid, pend_tempId = ''msg-'' @ decimal now2,
                 pend_userMessage = trim (input s)\<rparr>"
  have "\<exists>s1. handleSubmit_begin now1 iso1 now2 iso2 s =
          Some (?pend, SendMessage (trim (input s)) None, s1)
        \<and> conversations s1 = in_conversation ?cid (\<lambda>messages. messages @ [?userMsg]) ?base"
    using assms
    by (cases "truthy_string (currentConversationId s)")
       (simp_all add: handleSubmit_begin_def Let_def del: truthy_string.simps)
  then obtain s1 where started: "handleSubmit_begin now1 iso1 now2 iso2 s =
        Some (?pend, SendMessage (trim (input s)) None, s1)"
    and convs: "conversations s1 = in_conversation ?cid (\<lambda>messages. messages @ [?userMsg]) ?base"
    by blast
  have "list_all2 (\<lambda>conv conv'.
          conv' = (if c_id conv = ?cid
                   then conv\<lparr>c_messages := c_messages conv @ [?userMsg]\<rparr> else conv))
        ?base (conversations s1)"
    unfolding convs by (rule in_conversation_rel)
  with started show ?thesis
    by (intro exI [of _ ?pend] exI [of _ s1]) simp
qed

lemma submit_run_calls:
  assumes "trim (input s) \<noteq> []" and "\<not> loading s"
  shows "fst (handleSubmit_run now1 iso1 now2 iso2 server now3 s) = [SendMessage (trim (input s)) None]"
  using assms by (simp add: handleSubmit_run_def handleSubmit_begin_def Let_def split_def)


text \<open>
  Claim C3. On both chat pages a submit that passes the guard (text left after trimming,
  no call in flight) appends one provisional message: the trimmed text, an empty
  response, a temporary id. On the conversation page it goes to the current
  conversation, or to the one the submit opens. A whole run makes the chat call once,
  however the call settles. When it settles, the messages are updated in place: they
  keep their number and order, every message with another id is unchanged, and a
  message with the temporary id keeps its text and timestamp and takes the reply as its
  response, or the fixed apology when the call failed.
\<close>

theorem provisional_message_settled_in_place:
  "(trim (chat_input s) \<noteq> [] \<and> \<not> chat_loading s \<longrightarrow>
      (\<exists>s1. Chat_handleSubmit_begin now1 iso1 s =
               Some (decimal now1, SendMessage (trim (chat_input s)) None, s1)
            \<and> messages s1 = messages s @
                 [\<lparr>cm_id = decimal now1, cm_message = trim (chat_input s), cm_response = [],
                   cm_timestamp = iso1\<rparr>])
      \<and> fst (Chat_handleSubmit_run now1 iso1 server now2 s) = [SendMessage (trim (chat_input s)) None])
   \<and> list_all2 (\<lambda>msg msg'.
         if cm_id msg = tempId
         then cm_message msg' = cm_message msg \<and> cm_timestamp msg' = cm_timestamp msg
              \<and> cm_response msg' =
                  (case settled of
                     Inr response \<Rightarrow> response
                   | Inl e \<Rightarrow> ''Sorry, I encountered an error. Please try again.'')
         else msg' = msg)
       (messages s) (messages (Chat_handleSubmit_settled tempId settled now2 s))
   \<and> length (messages (Chat_handleSubmit_settled tempId settled now2 s)) = length (messages s)
   \<and> (trim (input t) \<noteq> [] \<and> \<not> loading t \<longrightarrow>
      (\<exists>pend t1. handleSubmit_begin n1 i1 n2 i2 t =
               Some (pend, SendMessage (trim (input t)) None, t1)
            \<and> pend_tempId pend = ''msg-'' @ decimal n2
            \<and> pend_conversationId pend =
                 (if truthy_string (currentConversationId t) then or_empty (currentConversationId t)
                  else ''conv-'' @ decimal n1)
            \<and> list_all2 (\<lambda>conv conv'.
                 conv' = (if c_id conv = pend_conversationId pend
                          then conv\<lparr>c_messages := c_messages conv @
                                 [\<lparr>m_id = ''msg-'' @ decimal n2, m_message = trim (input t),
                                   m_response = [], m_timestamp = i2, m_proposedProjects = None,
                                   m_requiresConfirmation = None\<rparr>]\<rparr>
                          else conv))
                (if truthy_string (currentConversationId t) then conversations t
                 else conversations t @
                        [\<lparr>c_id = ''conv-'' @ decimal n1, c_title = take 50 (trim (input t)),
                          c_messages = [], c_createdAt = i1\<rparr>])
                (conversations t1))
      \<and> fst (handleSubmit_run n1 i1 n2 i2 cserver n3 t) = [SendMessage (trim (input t)) None])
   \<and> list_all2 (\<lambda>conv conv'.
         conv'\<lparr>c_messages := c_messages conv\<rparr> = conv
         \<and> length (c_messages conv') = length (c_messages conv)
         \<and> list_all2 (\<lambda>msg msg'.
              if c_id conv = pend_conversationId p \<and> m_id msg = pend_tempId p
              then m_message msg' = m_message msg \<and> m_timestamp msg' = m_timestamp msg
                   \<and> m_response msg' =
                       (case csettled of
                          Inr chatResponse \<Rightarrow> r_response chatResponse
                        | Inl e \<Rightarrow> ''Sorry, I encountered an error. Please try again.'')
              else msg' = msg)
            (c_messages conv) (c_messages conv'))
       (conversations t) (conversations (handleSubmit_settled p csettled n3 t))"
proof -
  have a: "trim (chat_input s) \<noteq> [] \<and> \<not> chat_loading s \<longrightarrow>
      (\<exists>s1. Chat_handleSubmit_begin now1 iso1 s =
               Some (decimal now1, SendMessage (trim (chat_input s)) None, s1)
            \<and> messages s1 = messages s @
                 [\<lparr>cm_id = decimal now1, cm_message = trim (chat_input s), cm_response = [],
                   cm_timestamp = iso1\<rparr>])
      \<and> fst (Chat_handleSubmit_run now1 iso1 server now2 s) = [SendMessage (trim (chat_input s)) None]"
    using plain_begin [of s now1 iso1] plain_run_calls [of s now1 iso1 server now2] by blast
  note b = plain_settled_frame [of tempId settled s now2]
  have c: "length (messages (Chat_handleSubmit_settled tempId settled now2 s)) = length (messages s)"
    using b by (simp add: list_all2_lengthD)
  have d: "trim (input t) \<noteq> [] \<and> \<not> loading t \<longrightarrow>
      (\<exists>pend t1. handleSubmit_begin n1 i1 n2 i2 t =
               Some (pend, SendMessage (trim (input t)) None, t1)
            \<and> pend_tempId pend = ''msg-'' @ decimal n2
            \<and> pend_conversationId pend =
                 (if truthy_string (currentConversationId t) then or_empty (currentConversationId t)
                  else ''conv-'' @ decimal n1)
            \<and> list_all2 (\<lambda>conv conv'.
                 conv' = (if c_id conv = pend_conversationId pend
                          then conv\<lparr>c_messages := c_messages conv @
                                 [\<lparr>m_id = ''msg-'' @ decimal n2, m_message = trim (input t),
                                   m_response = [], m_timestamp = i2, m_proposedProjects = None,
                                   m_requiresConfirmation = None\<rparr>]\<rparr>
                          else conv))
                (if truthy_string (currentConversationId t) then conversations t
                 else conversations t @
                        [\<lparr>c_id = ''conv-'' @ decimal n1, c_title = take 50 (trim (input t)),
                          c_messages = [], c_createdAt = i1\<rparr>])
                (conversations t1))
      \<and> fst (handleSubmit_run n1 i1 n2 i2 cserver n3 t) = [SendMessage (trim (input t)) None]"
    using submit_begin_appends [of t n1 i1 n2 i2] submit_run_calls [of t n1 i1 n2 i2 cserver n3]
    by blast
  have e: "list_all2 (\<lambda>conv conv'.
         conv'\<lparr>c_messages := c_messages conv\<rparr> = conv
         \<and> length (c_messages conv') = length (c_messages conv)
         \<and> list_all2 (\<lambda>msg msg'.
              if c_id conv = pend_conversationId p \<and> m_id msg = pend_tempId p
              then m_message msg' = m_message msg \<and> m_timestamp msg' = m_timestamp msg
                   \<and> m_response msg' =
                       (case csettled of
                          Inr chatResponse \<Rightarrow> r_response chatResponse
                        | Inl e \<Rightarrow> ''Sorry, I encountered an error. Please try again.'')
              else msg' = msg)
            (c_messages conv) (c_messages conv'))
       (conversations t) (conversations (handleSubmit_settled p csettled n3 t))"
    by (rule list_all2_mono [OF settled_frame [where settled = csettled]])
       (auto elim!: list_all2_mono dest: list_all2_lengthD split: if_splits)
  from a b c d e show ?thesis by blast
qed

theorem provisional_message_settled_in_place_witness:
  "trim (chat_input example_plain) \<noteq> [] \<and> \<not> chat_loading example_plain
   \<and> fst (Chat_handleSubmit_run 5 ''noon'' (\<lambda>c. Inl (Error ''offline'')) 6 example_plain)
       = [SendMessage ''hello'' None]
   \<and> messages (snd (Chat_handleSubmit_run 5 ''noon'' (\<lambda>c. Inl (Error ''offline'')) 6 example_plain))
       = [\<lparr>cm_id = ''msg-1'', cm_message = ''hi'', cm_response = ''hello there'',
            cm_timestamp = ''2025-01-01''\<rparr>,
          \<lparr>cm_id = ''5'', cm_message = ''hello'',
            cm_response = ''Sorry, I encountered an error. Please try again.'',
            cm_timestamp = ''noon''\<rparr>]
   \<and> trim (input example_chat) \<noteq> [] \<and> \<not> loading example_chat
   \<and> fst (handleSubmit_run 5 ''noon'' 6 ''noon'' (\<lambda>c. Inl (Error ''offline'')) 7 example_chat)
       = [SendMessage ''hello'' None]"
proof -
  have g: "trim (chat_input example_plain) = ''hello''" "\<not> chat_loading example_plain"
    "trim (input example_chat) = ''hello''" "\<not> loading example_chat"
    by (simp_all add: example_plain_def example_chat_def trim_example)
  have m: "messages (snd (Chat_handleSubmit_run 5 ''noon'' (\<lambda>c. Inl (Error ''offline'')) 6 example_plain))
       = [\<lparr>cm_id = ''msg-1'', cm_message = ''hi'', cm_response = ''hello there'',
            cm_timestamp = ''2025-01-01''\<rparr>,
          \<lparr>cm_id = ''5'', cm_message = ''hello'',
            cm_response = ''Sorry, I encountered an error. Please try again.'',
            cm_timestamp = ''noon''\<rparr>]"
    by (simp add: Chat_handleSubmit_run_def Chat_handleSubmit_begin_def Chat_handleSubmit_settled_def
        example_plain_def trim_example Let_def decimal.simps digit_char_def)
  show ?thesis
    using provisional_message_settled_in_place
      [of example_plain 5 "''noon''" "\<lambda>c. Inl (Error ''offline'')" 6 _ _ example_chat
          5 "''noon''" 6 "''noon''" "\<lambda>c. Inl (Error ''offline'')" 7]
      g m
    by simp
qed

section \<open>Properties of plan generation\<close>

lemma generate_plan_begin_keeps:
  "handleGeneratePlan_begin now1 iso1 s = Some (selected, tempId, s1) \<Longrightarrow>
   selectedProject s = Some selected \<and> selectedProject s1 = selectedProject s \<and> projects s1 = projects s"
  by (auto simp add: handleGeneratePlan_begin_def Let_def split: option.splits if_splits)

lemma generate_plan_clarification:
  "needs_clarification result \<Longrightarrow>
   selectedProject (handleGeneratePlan_settled selected tempId (Inr result) now2 s) = selectedProject s
   \<and> projects (handleGeneratePlan_settled selected tempId (Inr result) now2 s) = projects s"
  by (simp add: handleGeneratePlan_settled_def Let_def)

lemma generate_plan_rejected:
  "selectedProject (handleGeneratePlan_settled selected tempId (Inl e) now2 s) = selectedProject s
   \<and> projects (handleGeneratePlan_settled selected tempId (Inl e) now2 s) = projects s"
  by (simp add: handleGeneratePlan_settled_def Let_def)

lemma generate_plan_final:
  "\<not> needs_clarification result \<Longrightarrow>
   selectedProject (handleGeneratePlan_settled selected tempId (Inr result) now2 s)
     = Some (selected\<lparr>project_plan := Some (plan result)\<rparr>)
   \<and> list_all2 (\<lambda>p p'. p' = (if project_id p = project_id selected
                               then p\<lparr>project_plan := Some (plan result)\<rparr> else p))
       (projects s) (projects (handleGeneratePlan_settled selected tempId (Inr result) now2 s))"
  by (simp add: handleGeneratePlan_settled_def Let_def list_all2_map_same)

lemma send_message_clarification:
  "sc_planGenerating c \<Longrightarrow> needs_clarification result \<Longrightarrow>
   selectedProject (handleSendMessage_settled c (Inr result) chat_settled details now2 s) = selectedProject s
   \<and> projects (handleSendMessage_settled c (Inr result) chat_settled details now2 s) = projects s"
  by (simp add: handleSendMessage_settled_def answer_message_def Let_def)

lemma send_message_rejected:
  "sc_planGenerating c \<Longrightarrow>
   selectedProject (handleSendMessage_settled c (Inl e) chat_settled details now2 s) = selectedProject s
   \<and> projects (handleSendMessage_settled c (Inl e) chat_settled details now2 s) = projects s"
  by (simp add: handleSendMessage_settled_def sorry_message_def Let_def)

text \<open>
  Claim C2. Plan generation in the project workspace. Up to its call \<open>handleGeneratePlan\<close>
  leaves the selected project and the projects list alone. When the reply asks for
  clarification, or the call fails, both are left as they are at that moment. Only a
  reply that does not ask for clarification replaces the plan: the selected project
  becomes the project the handler started from with the reply's text as its plan, and in
  the list every entry with that project's id takes the text as its plan while the other
  entries are unchanged. The plan call made from \<open>handleSendMessage\<close> likewise leaves
  both alone on a clarification and on a failure.
\<close>

theorem clarification_keeps_plan:
  "(handleGeneratePlan_begin now1 iso1 s0 = Some (selected, tempId, s1) \<longrightarrow>
      selectedProject s0 = Some selected \<and> selectedProject s1 = selectedProject s0
      \<and> projects s1 = projects s0)
   \<and> (needs_clarification result \<longrightarrow>
        selectedProject (handleGeneratePlan_settled selected tempId (Inr result) now2 s) = selectedProject s
        \<and> projects (handleGeneratePlan_settled selected tempId (Inr result) now2 s) = projects s)
   \<and> selectedProject (handleGeneratePlan_settled selected tempId (Inl e) now2 s) = selectedProject s
   \<and> projects (handleGeneratePlan_settled selected tempId (Inl e) now2 s) = projects s
   \<and> (\<not> needs_clarification result \<longrightarrow>
        selectedProject (handleGeneratePlan_settled selected tempId (Inr result) now2 s)
          = Some (selected\<lparr>project_plan := Some (plan result)\<rparr>)
        \<and> list_all2 (\<lambda>p p'. p' = (if project_id p = project_id selected
                                    then p\<lparr>project_plan := Some (plan result)\<rparr> else p))
            (projects s) (projects (handleGeneratePlan_settled selected tempId (Inr result) now2 s)))
   \<and> (sc_planGenerating c \<and> needs_clarification result \<longrightarrow>
        selectedProject (handleSendMessage_settled c (Inr result) chat_settled details now2 s) = selectedProject s
        \<and> projects (handleSendMessage_settled c (Inr result) chat_settled details now2 s) = projects s)
   \<and> (sc_planGenerating c \<longrightarrow>
        selectedProject (handleSendMessage_settled c (Inl e) chat_settled details now2 s) = selectedProject s
        \<and> projects (handleSendMessage_settled c (Inl e) chat_settled details now2 s) = projects s)"
  using generate_plan_begin_keeps [of now1 iso1 s0 selected tempId s1]
    generate_plan_clarification [of result selected tempId now2 s]
    generate_plan_rejected [of selected tempId e now2 s]
    generate_plan_final [of result selected tempId now2 s]
    send_message_clarification [of c result chat_settled details now2 s]
    send_message_rejected [of c e chat_settled details now2 s]
  by blast

theorem clarification_keeps_plan_witness:
  "handleGeneratePlan_begin 7 ''2025-01-03'' example_idle_home
       = Some (example_project, ''temp-7'', example_home)
   \<and> selectedProject example_home = selectedProject example_idle_home
   \<and> projects example_home = projects example_idle_home
   \<and> needs_clarification \<lparr>plan = ''Which level are you at?'', needs_clarification = True\<rparr>
   \<and> map project_plan (projects (handleGeneratePlan_settled example_project ''temp-7''
        (Inr \<lparr>plan = ''Which level are you at?'', needs_clarification = True\<rparr>) 8 example_home))
       = [Some ''week 1: basics'']
   \<and> map_option project_plan (selectedProject (handleGeneratePlan_settled example_project ''temp-7''
        (Inr \<lparr>plan = ''Which level are you at?'', needs_clarification = True\<rparr>) 8 example_home))
       = Some (Some ''week 1: basics'')
   \<and> \<not> needs_clarification \<lparr>plan = ''week 1: syntax'', needs_clarification = False\<rparr>
   \<and> map_option project_plan (selectedProject (handleGeneratePlan_settled example_project ''temp-7''
        (Inr \<lparr>plan = ''week 1: syntax'', needs_clarification = False\<rparr>) 8 example_home))
       = Some (Some ''week 1: syntax'')
   \<and> map project_plan (projects (handleGeneratePlan_settled example_project ''temp-7''
        (Inr \<lparr>plan = ''week 1: syntax'', needs_clarification = False\<rparr>) 8 example_home))
       = [Some ''week 1: syntax'']
   \<and> sc_planGenerating example_closure
   \<and> map project_plan (projects (handleSendMessage_settled example_closure
        (Inr \<lparr>plan = ''Which level are you at?'', needs_clarification = True\<rparr>)
        (Inl (Error ''not called'')) (Inl (Error ''not called'')) 8 example_home))
       = [Some ''week 1: basics'']"
proof -
  have b: "handleGeneratePlan_begin 7 ''2025-01-03'' example_idle_home
       = Some (example_project, ''temp-7'', example_home)"
    by (simp add: handleGeneratePlan_begin_def example_idle_home_def example_home_def Let_def
        decimal.simps digit_char_def)
  have p: "map project_plan (projects example_home) = [Some ''week 1: basics'']"
    "map_option project_plan (selectedProject example_home) = Some (Some ''week 1: basics'')"
    "project_id example_project = ''p1''"
    by (simp_all add: example_home_def example_project_def)
  have c: "sc_planGenerating example_closure"
    by (simp add: example_closure_def)
  note t = clarification_keeps_plan
      [where ?now1.0 = 7 and ?iso1.0 = "''2025-01-03''" and ?s0.0 = example_idle_home
         and ?s1.0 = example_home
         and result = "\<lparr>plan = ''Which level are you at?'', needs_clarification = True\<rparr>"
         and selected = example_project and tempId = "''temp-7''" and ?now2.0 = 8 and s = example_home
         and c = example_closure and chat_settled = "Inl (Error ''not called'')"
         and details = "Inl (Error ''not called'')"]
  have n: "\<not> needs_clarification \<lparr>plan = ''week 1: syntax'', needs_clarification = False\<rparr>"
    by simp
  note f = clarification_keeps_plan
      [where result = "\<lparr>plan = ''week 1: syntax'', needs_clarification = False\<rparr>"
         and selected = example_project and tempId = "''temp-7''" and ?now2.0 = 8 and s = example_home,
       THEN conjunct2, THEN conjunct2, THEN conjunct2, THEN conjunct2, THEN conjunct1,
       THEN mp, OF n]
  have f1: "selectedProject (handleGeneratePlan_settled example_project ''temp-7''
        (Inr \<lparr>plan = ''week 1: syntax'', needs_clarification = False\<rparr>) 8 example_home)
       = Some (example_project\<lparr>project_plan := Some ''week 1: syntax''\<rparr>)"
    using f [THEN conjunct1] by simp
  have f3: "map project_plan (projects (handleGeneratePlan_settled example_project ''temp-7''
        (Inr \<lparr>plan = ''week 1: syntax'', needs_clarification = False\<rparr>) 8 example_home))
       = [Some ''week 1: syntax'']"
    using f [THEN conjunct2] by (auto simp add: example_home_def list_all2_Cons1)
  from t b c p f1 f3 show ?thesis
    by simp
qed

section \<open>Properties of the OAuth callback page\<close>

lemma oauth_effect_call:
  "fst (OAuthCallback_effect code state error origin s) =
     (if truthy_string code \<and> truthy_string state \<and> \<not> truthy_string error
      then Some (CompleteGoogleCalendarOAuth (or_empty code) (or_empty state)
                   (origin @ ''/settings/oauth/callback''))
      else None)"
  by (simp add: OAuthCallback_effect_def Let_def del: truthy_string.simps)

lemma oauth_effect_failed:
  "truthy_string error \<or> \<not> truthy_string code \<or> \<not> truthy_string state \<Longrightarrow>
   cb_status (snd (snd (OAuthCallback_effect code state error origin s))) = Failed"
  by (auto simp add: OAuthCallback_effect_def Let_def simp del: truthy_string.simps)

text \<open>
  Claim C5, as amended. The page tests its parameters with \<open>if (error)\<close> and
  \<open>!code || !state\<close>, so a parameter with an empty value counts as absent. It calls the
  completion endpoint only when the code and the state are not empty and there is no
  non-empty error parameter, and then with that code and state. When the error
  parameter is not empty, or the code or the state is missing or empty, the page makes
  no call and its status becomes \<open>'error'\<close>.
\<close>

theorem oauth_completion_guard:
  "(fst (OAuthCallback_effect code state error origin s) \<noteq> None \<longrightarrow>
      (\<exists>c st. code = Some c \<and> c \<noteq> [] \<and> state = Some st \<and> st \<noteq> []
         \<and> fst (OAuthCallback_effect code state error origin s) =
             Some (CompleteGoogleCalendarOAuth c st (origin @ ''/settings/oauth/callback'')))
      \<and> \<not> truthy_string error)
   \<and> (truthy_string code \<and> truthy_string state \<and> \<not> truthy_string error \<longrightarrow>
        fst (OAuthCallback_effect code state error origin s) \<noteq> None)
   \<and> (truthy_string error \<or> \<not> truthy_string code \<or> \<not> truthy_string state \<longrightarrow>
        fst (OAuthCallback_effect code state error origin s) = None
        \<and> cb_status (snd (snd (OAuthCallback_effect code state error origin s))) = Failed)"
proof -
  have a: "truthy_string v \<longleftrightarrow> (\<exists>x. v = Some x \<and> x \<noteq> [])" for v
    by (cases v) simp_all
  have b: "truthy_string v \<Longrightarrow> v = Some (or_empty v)" for v
    by (cases v) (simp_all add: or_empty_def)
  show ?thesis
    unfolding oauth_effect_call
    using oauth_effect_failed [of error code state origin s] a b
    by (auto simp del: truthy_string.simps simp add: or_empty_def)
qed

theorem oauth_completion_guard_witness:
  "fst (OAuthCallback_effect (Some ''4/abc'') (Some ''xyz'') None ''https://app'' \<lparr>cb_status = Processing, cb_message = []\<rparr>)
     = Some (CompleteGoogleCalendarOAuth ''4/abc'' ''xyz'' ''https://app/settings/oauth/callback'')
   \<and> fst (OAuthCallback_effect (Some ''4/abc'') (Some ''xyz'') (Some ''access_denied'') ''https://app'' \<lparr>cb_status = Processing, cb_message = []\<rparr>)
     = None
   \<and> cb_status (snd (snd (OAuthCallback_effect (Some ''4/abc'') (Some ''xyz'') (Some ''access_denied'') ''https://app'' \<lparr>cb_status = Processing, cb_message = []\<rparr>)))
     = Failed
   \<and> fst (OAuthCallback_effect None (Some ''xyz'') None ''https://app'' \<lparr>cb_status = Processing, cb_message = []\<rparr>)
     = None
   \<and> cb_status (snd (snd (OAuthCallback_effect None (Some ''xyz'') None ''https://app'' \<lparr>cb_status = Processing, cb_message = []\<rparr>)))
     = Failed
   \<and> \<not> truthy_string (Some [])
   \<and> fst (OAuthCallback_effect (Some []) (Some ''xyz'') None ''https://app'' \<lparr>cb_status = Processing, cb_message = []\<rparr>)
     = None
   \<and> cb_status (snd (snd (OAuthCallback_effect (Some []) (Some ''xyz'') None ''https://app'' \<lparr>cb_status = Processing, cb_message = []\<rparr>)))
     = Failed"
  using oauth_completion_guard [of "Some ''4/abc''" "Some ''xyz''" None "''https://app''" "\<lparr>cb_status = Processing, cb_message = []\<rparr>"]
    oauth_completion_guard [of "Some ''4/abc''" "Some ''xyz''" "Some ''access_denied''" "''https://app''" "\<lparr>cb_status = Processing, cb_message = []\<rparr>"]
    oauth_completion_guard [of None "Some ''xyz''" None "''https://app''" "\<lparr>cb_status = Processing, cb_message = []\<rparr>"]
    oauth_completion_guard [of "Some []" "Some ''xyz''" None "''https://app''" "\<lparr>cb_status = Processing, cb_message = []\<rparr>"]
  by auto

text \<open>
  Claim C5 as first stated asks for no error parameter at all. A callback URL ending in
  \<open>?code=4/abc&state=xyz&error=\<close> carries one, with an empty value, and the page calls
  the completion endpoint all the same.
\<close>

theorem oauth_empty_error_counterexample:
  "(Some [] :: string option) \<noteq> None
   \<and> fst (OAuthCallback_effect (Some ''4/abc'') (Some ''xyz'') (Some []) ''https://app''
          \<lparr>cb_status = Processing, cb_message = []\<rparr>)
       = Some (CompleteGoogleCalendarOAuth ''4/abc'' ''xyz'' ''https://app/settings/oauth/callback'')
   \<and> cb_status (snd (snd (OAuthCallback_effect (Some ''4/abc'') (Some ''xyz'') (Some []) ''https://app''
          \<lparr>cb_status = Processing, cb_message = []\<rparr>)))
       = Processing"
  by (simp add: OAuthCallback_effect_def or_empty_def)

section \<open>Properties of the auth context\<close>

lemma is_authenticated_iff: "isAuthenticated s \<longleftrightarrow> user s \<noteq> None"
  by (simp add: isAuthenticated_def split: option.splits)

lemma logout_clears:
  "getItem (fst (logout w)) ''token'' = None \<and> user (snd (logout w)) = None"
  by (simp add: logout_def getItem_def removeItem_def)

lemma mount_begin_token:
  "truthy_string (getItem (fst w) ''token'') \<Longrightarrow> mount_begin w = (Some VerifyToken, w)"
  by (simp add: mount_begin_def Let_def)

lemma mount_failed:
  "getItem (fst (mount_settled (Inl err) w)) ''token'' = None
   \<and> user (snd (mount_settled (Inl err) w)) = user (snd w)"
  by (simp add: mount_settled_def getItem_def removeItem_def Let_def)

text \<open>
  Claim C6. In the auth context \<open>isAuthenticated\<close> holds exactly when a user is set.
  \<open>logout\<close> removes the stored token and clears the user. On startup with a stored
  token the context asks the backend to verify it; when that fails, the token is removed
  from storage and the user is as before, which on startup is unset.
\<close>

theorem auth_context_invariants:
  "(isAuthenticated s \<longleftrightarrow> user s \<noteq> None)
   \<and> getItem (fst (logout w)) ''token'' = None
   \<and> user (snd (logout w)) = None
   \<and> \<not> isAuthenticated (snd (logout w))
   \<and> (truthy_string (getItem ls ''token'') \<longrightarrow>
        mount_begin (ls, initial_auth) = (Some VerifyToken, ls, initial_auth)
        \<and> getItem (fst (mount_settled (Inl err) (ls, initial_auth))) ''token'' = None
        \<and> user (snd (mount_settled (Inl err) (ls, initial_auth))) = None
        \<and> \<not> isAuthenticated (snd (mount_settled (Inl err) (ls, initial_auth))))
   \<and> getItem (fst (mount_settled (Inl err) w)) ''token'' = None
   \<and> user (snd (mount_settled (Inl err) w)) = user (snd w)"
  using logout_clears [of w] mount_begin_token [of "(ls, initial_auth)"]
    mount_failed [of err w] mount_failed [of err "(ls, initial_auth)"]
  by (simp add: is_authenticated_iff initial_auth_def)

theorem auth_context_invariants_witness:
  "truthy_string (getItem [''token'' \<mapsto> ''stale''] ''token'')
   \<and> mount_begin ([''token'' \<mapsto> ''stale''], initial_auth)
       = (Some VerifyToken, [''token'' \<mapsto> ''stale''], initial_auth)
   \<and> getItem (fst (mount_settled (Inl (Error ''HTTP error! status: 401''))
        ([''token'' \<mapsto> ''stale''], initial_auth))) ''token'' = None
   \<and> user (snd (mount_settled (Inl (Error ''HTTP error! status: 401''))
        ([''token'' \<mapsto> ''stale''], initial_auth))) = None
   \<and> isAuthenticated \<lparr>user = Some example_user, auth_loading = False\<rparr>
   \<and> \<not> isAuthenticated (snd (logout ([''token'' \<mapsto> ''stale''],
        \<lparr>user = Some example_user, auth_loading = False\<rparr>)))"
  using auth_context_invariants
    [of "\<lparr>user = Some example_user, auth_loading = False\<rparr>"
        "([''token'' \<mapsto> ''stale''], \<lparr>user = Some example_user, auth_loading = False\<rparr>)"
        "[''token'' \<mapsto> ''stale'']" "Error ''HTTP error! status: 401''"]
  by (simp add: getItem_def)

section \<open>Properties of the password form\<close>

lemma password_call:
  "fst (handlePasswordUpdate_begin s) =
     (if newPassword s = confirmPassword s \<and> 6 \<le> length (newPassword s)
      then Some (UpdatePassword (currentPassword s) (newPassword s)) else None)"
  by (simp add: handlePasswordUpdate_begin_def Let_def)

lemma password_rejected:
  "newPassword s \<noteq> confirmPassword s \<or> length (newPassword s) < 6 \<Longrightarrow>
   st_error (snd (handlePasswordUpdate_begin s)) \<in>
     {''New passwords do not match'', ''New password must be at least 6 characters long''}
   \<and> (snd (handlePasswordUpdate_begin s))\<lparr>st_error := st_error s, st_success := st_success s\<rparr> = s"
  by (auto simp add: handlePasswordUpdate_begin_def Let_def)

text \<open>
  Claim C9. The password form calls the update-password endpoint only when the new
  password equals its confirmation and is at least six long, and then it does call it.
  A submission that breaks either condition makes no call and sets the inline error
  message; the three password fields, and every cell but the two message cells, are
  left as they were.
\<close>

theorem password_update_guard:
  "(fst (handlePasswordUpdate_begin s) \<noteq> None \<longrightarrow>
      newPassword s = confirmPassword s \<and> 6 \<le> length (newPassword s)
      \<and> fst (handlePasswordUpdate_begin s) = Some (UpdatePassword (currentPassword s) (newPassword s)))
   \<and> (newPassword s = confirmPassword s \<and> 6 \<le> length (newPassword s) \<longrightarrow>
        fst (handlePasswordUpdate_begin s) \<noteq> None)
   \<and> (newPassword s \<noteq> confirmPassword s \<or> length (newPassword s) < 6 \<longrightarrow>
        fst (handlePasswordUpdate_begin s) = None
        \<and> st_error (snd (handlePasswordUpdate_begin s)) \<noteq> []
        \<and> st_error (snd (handlePasswordUpdate_begin s)) =
            (if newPassword s \<noteq> confirmPassword s then ''New passwords do not match''
             else ''New password must be at least 6 characters long'')
        \<and> currentPassword (snd (handlePasswordUpdate_begin s)) = currentPassword s
        \<and> newPassword (snd (handlePasswordUpdate_begin s)) = newPassword s
        \<and> confirmPassword (snd (handlePasswordUpdate_begin s)) = confirmPassword s
        \<and> (snd (handlePasswordUpdate_begin s))\<lparr>st_error := st_error s, st_success := st_success s\<rparr> = s)"
  unfolding password_call
  by (auto simp add: handlePasswordUpdate_begin_def Let_def)

theorem password_update_guard_witness:
  "length (newPassword example_settings) < 6
   \<and> fst (handlePasswordUpdate_begin example_settings) = None
   \<and> st_error (snd (handlePasswordUpdate_begin example_settings))
       = ''New password must be at least 6 characters long''
   \<and> newPassword (snd (handlePasswordUpdate_begin example_settings)) = ''abc''
   \<and> fst (handlePasswordUpdate_begin (example_settings\<lparr>newPassword := ''secret1'', confirmPassword := ''secret1''\<rparr>))
       = Some (UpdatePassword ''old-secret'' ''secret1'')"
  using password_update_guard [of example_settings]
    password_update_guard [of "example_settings\<lparr>newPassword := ''secret1'', confirmPassword := ''secret1''\<rparr>"]
  by (simp add: example_settings_def)

section \<open>Properties of the project store\<close>

lemma create_then_get:
  assumes "create_project caller now d st = Inr (i, st')"
  shows "\<exists>p. get_project caller i st' = Inr p \<and> data_title d = Some (sp_title p)
           \<and> sp_description p = data_description d \<and> sp_due_date p = data_due_date d"
proof -
  from assms obtain t where t: "data_title d = Some t" "t \<noteq> []"
    by (auto simp add: create_project_def split: option.splits if_splits)
  with assms have "i = next_id st"
    and "st' = st\<lparr>rows := (rows st)(next_id st \<mapsto>
                 \<lparr>sp_owner = caller, sp_title = t, sp_description = data_description d,
                  sp_due_date = data_due_date d, sp_plan = None,
                  sp_created = now, sp_updated = now\<rparr>),
               next_id := Suc (next_id st)\<rparr>"
    by (auto simp add: create_project_def)
  with t show ?thesis
    by (simp add: get_project_def)
qed

lemma update_frame:
  assumes "get_project caller i st = Inr p"
  shows "\<exists>st' p'. update_project caller now i d new_plan st = Inr st'
           \<and> get_project caller i st' = Inr p'
           \<and> p'\<lparr>sp_title := sp_title p, sp_description := sp_description p,
                 sp_due_date := sp_due_date p, sp_plan := sp_plan p, sp_updated := sp_updated p\<rparr> = p
           \<and> sp_title p' = (case data_title d of None \<Rightarrow> sp_title p | Some t \<Rightarrow> t)
           \<and> sp_description p' = (case data_description d of None \<Rightarrow> sp_description p | Some v \<Rightarrow> Some v)
           \<and> sp_due_date p' = (case data_due_date d of None \<Rightarrow> sp_due_date p | Some v \<Rightarrow> Some v)
           \<and> sp_plan p' = (case new_plan of None \<Rightarrow> sp_plan p | Some v \<Rightarrow> Some v)
           \<and> (\<forall>j. j \<noteq> i \<longrightarrow> rows st' j = rows st j)"
  using assms
  by (auto simp add: update_project_def get_project_def split: option.splits if_splits)

text \<open>
  Claim C8. A project that was created and is then fetched by its owner comes back with
  the title, description and due date it was created with. An update of a project
  writes the fields its body carries and the updated timestamp: every field the body
  leaves out keeps its value, the owner and the created timestamp are kept, and so is
  every other project.
\<close>

theorem project_roundtrip_and_update_frame:
  "(create_project caller now d st = Inr (i, st') \<longrightarrow>
      (\<exists>p. get_project caller i st' = Inr p \<and> data_title d = Some (sp_title p)
          \<and> sp_description p = data_description d \<and> sp_due_date p = data_due_date d))
   \<and> (get_project caller j st = Inr q \<longrightarrow>
      (\<exists>st2 q'. update_project caller now j u new_plan st = Inr st2
          \<and> get_project caller j st2 = Inr q'
          \<and> q'\<lparr>sp_title := sp_title q, sp_description := sp_description q,
                sp_due_date := sp_due_date q, sp_plan := sp_plan q, sp_updated := sp_updated q\<rparr> = q
          \<and> sp_title q' = (case data_title u of None \<Rightarrow> sp_title q | Some t \<Rightarrow> t)
          \<and> sp_description q' = (case data_description u of None \<Rightarrow> sp_description q | Some v \<Rightarrow> Some v)
          \<and> sp_due_date q' = (case data_due_date u of None \<Rightarrow> sp_due_date q | Some v \<Rightarrow> Some v)
          \<and> sp_plan q' = (case new_plan of None \<Rightarrow> sp_plan q | Some v \<Rightarrow> Some v)
          \<and> (\<forall>k. k \<noteq> j \<longrightarrow> rows st2 k = rows st k)))"
  using create_then_get [of caller now d st i st'] update_frame [of caller j st q now u new_plan]
  by blast


theorem project_roundtrip_and_update_frame_witness:
  "create_project ''u1'' 10 example_data example_store = Inr (0, example_created)
   \<and> get_project ''u1'' 0 example_created = Inr example_row
   \<and> data_title example_data = Some (sp_title example_row)
   \<and> sp_description example_row = data_description example_data
   \<and> sp_due_date example_row = data_due_date example_data
   \<and> (\<exists>st2 q'. update_project ''u1'' 11 0
          \<lparr>data_title = Some ''Learn Rust'', data_description = None, data_due_date = None\<rparr>
          None example_created = Inr st2
        \<and> get_project ''u1'' 0 st2 = Inr q'
        \<and> sp_title q' = ''Learn Rust''
        \<and> sp_description q' = Some ''Read a book''
        \<and> sp_due_date q' = Some ''2025-06-01''
        \<and> sp_plan q' = None)"
proof -
  have c: "create_project ''u1'' 10 example_data example_store = Inr (0, example_created)"
    by (simp add: create_project_def example_data_def example_store_def example_created_def
        example_row_def)
  have g: "get_project ''u1'' 0 example_created = Inr example_row"
    by (simp add: get_project_def example_created_def example_row_def)
  have r: "\<exists>p. get_project ''u1'' 0 example_created = Inr p
        \<and> data_title example_data = Some (sp_title p)
        \<and> sp_description p = data_description example_data
        \<and> sp_due_date p = data_due_date example_data"
    using project_roundtrip_and_update_frame
      [of "''u1''" 10 example_data example_store 0 example_created 0 example_row example_data None,
       THEN conjunct1, THEN mp, OF c]
    by simp
  have u: "\<exists>st2 q'. update_project ''u1'' 11 0
          \<lparr>data_title = Some ''Learn Rust'', data_description = None, data_due_date = None\<rparr>
          None example_created = Inr st2
        \<and> get_project ''u1'' 0 st2 = Inr q'
        \<and> sp_title q' = ''Learn Rust''
        \<and> sp_description q' = Some ''Read a book''
        \<and> sp_due_date q' = Some ''2025-06-01''
        \<and> sp_plan q' = None"
    using project_roundtrip_and_update_frame
      [of "''u1''" 11 example_data example_created 0 example_created 0 example_row
          "\<lparr>data_title = Some ''Learn Rust'', data_description = None, data_due_date = None\<rparr>"
          None, THEN conjunct2, THEN mp, OF g]
    by (auto simp add: example_row_def)
  from c g r u show ?thesis
    by (simp add: example_data_def example_row_def)
qed

end
